theory Spec2Isabelle
  imports Main "HOL-Library.Word"
begin

unbundle bit_operations_syntax

section \<open>Metal graphics pipeline state object (MTGraphicsPSO.mm)\<close>

text \<open>
  A shallow embedding of \<^verbatim>\<open>sources/Renderer/Metal/RenderState/MTGraphicsPSO.mm\<close>:
  the constructor of \<^verbatim>\<open>MTGraphicsPSO\<close> with its two private helpers
  \<^verbatim>\<open>CreateRenderPipelineState\<close> and \<^verbatim>\<open>CreateDepthStencilState\<close>, and \<^verbatim>\<open>Bind\<close>.
  The object under construction and the sequence of calls made on the native device are
  explicit state; a C++ exception is a value returned next to that state, so that what
  had already happened when it was thrown can be read off.
\<close>

subsection \<open>Machine types\<close>

type_synonym NSUInteger = "64 word"
type_synonym uint32_t = "32 word"

text \<open>A \<^verbatim>\<open>float\<close> is only ever copied by this file; it is carried as its 32-bit pattern.\<close>
type_synonym float = "32 word"

subsection \<open>LLGL descriptors\<close>

text \<open>
  The enumerations of \<^verbatim>\<open>LLGL/PipelineStateFlags.h\<close> are declared outside the sources at
  hand and are only handed to the conversion functions of \<^verbatim>\<open>MTTypes\<close>; each is carried
  as its integer code.
\<close>
type_synonym CullMode = int
type_synonym PolygonMode = int
type_synonym PrimitiveTopology = int
type_synonym BlendOp = int
type_synonym BlendArithmetic = int
type_synonym StencilOp = int
type_synonym CompareOp = int
type_synonym Format = int
type_synonym TessellationPartition = int

record 'c ColorRGBA =
  r :: 'c
  g :: 'c
  b :: 'c
  a :: 'c

type_synonym ColorRGBAb = "bool ColorRGBA"
type_synonym ColorRGBAf = "float ColorRGBA"

record DepthBiasDescriptor =
  constantFactor :: float
  slopeFactor :: float
  clamp :: float

record RasterizerDescriptor =
  cullMode :: CullMode
  frontCCW :: bool
  polygonMode :: PolygonMode
  depthClampEnabled :: bool
  depthBias :: DepthBiasDescriptor
  discardEnabled :: bool
  multiSampleEnabled :: bool

record BlendTargetDescriptor =
  blendEnabled :: bool
  srcColor :: BlendOp
  dstColor :: BlendOp
  colorArithmetic :: BlendArithmetic
  srcAlpha :: BlendOp
  dstAlpha :: BlendOp
  alphaArithmetic :: BlendArithmetic
  colorMask :: ColorRGBAb

text \<open>
  \<^verbatim>\<open>targets\<close> is the array \<^verbatim>\<open>desc.blend.targets\<close>, indexed by the source with
  \<^verbatim>\<open>targets[k]\<close>; it is a list here, and every statement about entry \<open>k\<close> says that the
  entry is there.
\<close>
record BlendDescriptor =
  alphaToCoverageEnabled :: bool
  independentBlendEnabled :: bool
  blendFactor :: ColorRGBAf
  blendFactorDynamic :: bool
  targets :: "BlendTargetDescriptor list"

record DepthDescriptor =
  depth_testEnabled :: bool
  depth_writeEnabled :: bool
  depth_compareOp :: CompareOp

record StencilFaceDescriptor =
  stencilFailOp :: StencilOp
  depthFailOp :: StencilOp
  depthPassOp :: StencilOp
  compareOp :: CompareOp
  readMask :: uint32_t
  writeMask :: uint32_t
  reference :: uint32_t

record StencilDescriptor =
  testEnabled :: bool
  referenceDynamic :: bool
  stencil_front :: StencilFaceDescriptor
  stencil_back :: StencilFaceDescriptor

record TessellationDescriptor =
  tess_partition :: TessellationPartition
  indexFormat :: Format
  maxTessFactor :: uint32_t
  outputWindingCCW :: bool

subsection \<open>Metal objects the translation reads\<close>

datatype MTLPatchType = MTLPatchTypeNone | MTLPatchTypeTriangle | MTLPatchTypeQuad

text \<open>A native shader function: an identity and the patch type it was compiled with.\<close>
record MTLFunction =
  function_id :: nat
  patchType :: MTLPatchType

type_synonym MTLVertexDescriptor = nat
type_synonym MTLPixelFormat = nat

text \<open>\<^verbatim>\<open>MTShader\<close>, as far as its getters are used here; \<open>None\<close> is \<^verbatim>\<open>nil\<close>.\<close>
record MTShader =
  GetNative :: "MTLFunction option"
  GetNumPatchControlPoints :: NSUInteger
  GetMTLVertexDesc :: "MTLVertexDescriptor option"

record MTAttachmentFormat =
  pixelFormat :: MTLPixelFormat

record MTRenderPass =
  GetColorAttachments :: "MTAttachmentFormat list"
  GetDepthAttachment :: MTAttachmentFormat
  GetStencilAttachment :: MTAttachmentFormat
  GetSampleCount :: NSUInteger

text \<open>A null pointer is \<open>None\<close>; \<^verbatim>\<open>LLGL_CAST\<close> keeps the pointer.\<close>
record GraphicsPipelineDescriptor =
  vertexShader :: "MTShader option"
  tessControlShader :: "MTShader option"
  fragmentShader :: "MTShader option"
  renderPass :: "MTRenderPass option"
  primitiveTopology :: PrimitiveTopology
  depth :: DepthDescriptor
  stencil :: StencilDescriptor
  rasterizer :: RasterizerDescriptor
  blend :: BlendDescriptor
  tessellation :: TessellationDescriptor

subsection \<open>Metal enumerations and native descriptors\<close>

datatype MTLWinding = MTLWindingClockwise | MTLWindingCounterClockwise

datatype MTLDepthClipMode = MTLDepthClipModeClip | MTLDepthClipModeClamp

datatype MTLStencilOperation =
    MTLStencilOperationKeep | MTLStencilOperationZero | MTLStencilOperationReplace
  | MTLStencilOperationIncrementClamp | MTLStencilOperationDecrementClamp
  | MTLStencilOperationInvert | MTLStencilOperationIncrementWrap
  | MTLStencilOperationDecrementWrap

datatype MTLCompareFunction =
    MTLCompareFunctionNever | MTLCompareFunctionLess | MTLCompareFunctionEqual
  | MTLCompareFunctionLessEqual | MTLCompareFunctionGreater | MTLCompareFunctionNotEqual
  | MTLCompareFunctionGreaterEqual | MTLCompareFunctionAlways

datatype MTLTessellationFactorFormat = MTLTessellationFactorFormatHalf

datatype MTLTessellationFactorStepFunction =
    MTLTessellationFactorStepFunctionConstant
  | MTLTessellationFactorStepFunctionPerPatch
  | MTLTessellationFactorStepFunctionPerInstance
  | MTLTessellationFactorStepFunctionPerPatchAndPerInstance

text \<open>Metal enumerations of which the source names no enumerator: integer codes.\<close>
type_synonym MTLCullMode = nat
type_synonym MTLTriangleFillMode = nat
type_synonym MTLPrimitiveType = nat
type_synonym MTLPrimitiveTopologyClass = nat
type_synonym MTLBlendOperation = nat
type_synonym MTLBlendFactor = nat
type_synonym MTLTessellationControlPointIndexType = nat
type_synonym MTLTessellationPartitionMode = nat

text \<open>\<^verbatim>\<open>MTLColorWriteMask\<close> is an option set over \<^verbatim>\<open>NSUInteger\<close>.\<close>
type_synonym MTLColorWriteMask = NSUInteger

definition MTLColorWriteMaskNone :: MTLColorWriteMask where
  "MTLColorWriteMaskNone = 0"

definition MTLColorWriteMaskRed :: MTLColorWriteMask where
  "MTLColorWriteMaskRed = push_bit 3 1"

definition MTLColorWriteMaskGreen :: MTLColorWriteMask where
  "MTLColorWriteMaskGreen = push_bit 2 1"

definition MTLColorWriteMaskBlue :: MTLColorWriteMask where
  "MTLColorWriteMaskBlue = push_bit 1 1"

definition MTLColorWriteMaskAlpha :: MTLColorWriteMask where
  "MTLColorWriteMaskAlpha = push_bit 0 1"

record MTLStencilDescriptor =
  stencilFailureOperation :: MTLStencilOperation
  depthFailureOperation :: MTLStencilOperation
  depthStencilPassOperation :: MTLStencilOperation
  stencilCompareFunction :: MTLCompareFunction
  mtl_readMask :: uint32_t
  mtl_writeMask :: uint32_t

record MTLDepthStencilDescriptor =
  depthWriteEnabled :: bool
  depthCompareFunction :: MTLCompareFunction
  frontFaceStencil :: MTLStencilDescriptor
  backFaceStencil :: MTLStencilDescriptor

record MTLRenderPipelineColorAttachmentDescriptor =
  ca_pixelFormat :: MTLPixelFormat
  ca_writeMask :: MTLColorWriteMask
  blendingEnabled :: bool
  alphaBlendOperation :: MTLBlendOperation
  rgbBlendOperation :: MTLBlendOperation
  destinationAlphaBlendFactor :: MTLBlendFactor
  destinationRGBBlendFactor :: MTLBlendFactor
  sourceAlphaBlendFactor :: MTLBlendFactor
  sourceRGBBlendFactor :: MTLBlendFactor

text \<open>
  The native render pipeline descriptor. A field the source assigns only under a
  condition is an option, \<open>None\<close> meaning that it was left as \<^verbatim>\<open>[[... alloc] init]\<close>
  made it; \<open>colorAttachments\<close> maps an index to the attachment descriptor written
  there, and has no entry at an index that was never written.
\<close>
record MTLRenderPipelineDescriptor =
  vertexDescriptor :: "MTLVertexDescriptor option"
  mtl_alphaToCoverageEnabled :: bool
  alphaToOneEnabled :: bool
  fragmentFunction :: "MTLFunction option"
  vertexFunction :: "MTLFunction option"
  inputPrimitiveTopology :: "MTLPrimitiveTopologyClass option"
  colorAttachments :: "nat \<rightharpoonup> MTLRenderPipelineColorAttachmentDescriptor"
  depthAttachmentPixelFormat :: MTLPixelFormat
  stencilAttachmentPixelFormat :: MTLPixelFormat
  rasterizationEnabled :: bool
  rasterSampleCount :: NSUInteger
  maxTessellationFactor :: "NSUInteger option"
  tessellationFactorScaleEnabled :: "bool option"
  tessellationFactorFormat :: "MTLTessellationFactorFormat option"
  tessellationControlPointIndexType :: "MTLTessellationControlPointIndexType option"
  tessellationFactorStepFunction :: "MTLTessellationFactorStepFunction option"
  tessellationOutputWindingOrder :: "MTLWinding option"
  tessellationPartitionMode :: "MTLTessellationPartitionMode option"

subsection \<open>What the file takes from elsewhere\<close>

text \<open>
  The conversion functions of \<^verbatim>\<open>MTTypes\<close> (taken as total), \<^verbatim>\<open>MTBoolean\<close> of
  \<^verbatim>\<open>MTCore.h\<close>, \<^verbatim>\<open>IsStaticBlendFactorEnabled\<close> of \<^verbatim>\<open>PipelineStateUtils.h\<close>, the
  platform macro \<^verbatim>\<open>LLGL_OS_IOS\<close> and the two \<^verbatim>\<open>@available\<close> tests are defined
  outside the sources at hand: they are parameters of the model.
\<close>
record Env =
  ToMTLCullMode :: "CullMode \<Rightarrow> MTLCullMode"
  ToMTLTriangleFillMode :: "PolygonMode \<Rightarrow> MTLTriangleFillMode"
  ToMTLPrimitiveType :: "PrimitiveTopology \<Rightarrow> MTLPrimitiveType"
  ToMTLPrimitiveTopologyClass :: "PrimitiveTopology \<Rightarrow> MTLPrimitiveTopologyClass"
  ToMTLStencilOperation :: "StencilOp \<Rightarrow> MTLStencilOperation"
  ToMTLCompareFunction :: "CompareOp \<Rightarrow> MTLCompareFunction"
  ToMTLBlendOperation :: "BlendArithmetic \<Rightarrow> MTLBlendOperation"
  ToMTLBlendFactor :: "BlendOp \<Rightarrow> MTLBlendFactor"
  ToMTLPatchIndexType :: "Format \<Rightarrow> MTLTessellationControlPointIndexType"
  ToMTLPartitionMode :: "TessellationPartition \<Rightarrow> MTLTessellationPartitionMode"
  MTBoolean :: "bool \<Rightarrow> bool"
  IsStaticBlendFactorEnabled :: "BlendDescriptor \<Rightarrow> bool"
  LLGL_OS_IOS :: bool
  available_macOS_10_11_iOS_11 :: bool
  available_iOS_12_0 :: bool

subsection \<open>The native device\<close>

type_synonym MTLRenderPipelineState = nat
type_synonym MTLComputePipelineState = nat
type_synonym MTLDepthStencilState = nat

text \<open>
  The three factory methods of \<^verbatim>\<open>id<MTLDevice>\<close>. A pipeline factory answers with the
  new object (\<open>Inr\<close>) or with \<^verbatim>\<open>nil\<close> and the text of the \<^verbatim>\<open>NSError\<close> (\<open>Inl\<close>).
\<close>
record MTLDevice =
  newRenderPipelineStateWithDescriptor ::
    "MTLRenderPipelineDescriptor \<Rightarrow> string + MTLRenderPipelineState"
  newComputePipelineStateWithFunction ::
    "MTLFunction option \<Rightarrow> string + MTLComputePipelineState"
  newDepthStencilStateWithDescriptor ::
    "MTLDepthStencilDescriptor \<Rightarrow> MTLDepthStencilState option"

datatype device_call =
    NewRenderPipelineState MTLRenderPipelineDescriptor
  | NewComputePipelineState "MTLFunction option"
  | NewDepthStencilState MTLDepthStencilDescriptor

text \<open>
  The exceptions of the file: \<^verbatim>\<open>std::invalid_argument\<close> with its message, and the
  failure of a native factory call, with the name of the interface and the native text.
\<close>
datatype exn = invalid_argument string | BackendCreationFailed string string

text \<open>
  Modelled from the spec: \<^verbatim>\<open>MTThrowIfCreateFailed\<close> is defined in \<^verbatim>\<open>MTCore\<close>, which is
  not among the sources. Following the spec (4.1, step 5: on failure of the native
  pipeline-factory call, surface \<^verbatim>\<open>BackendCreationFailed\<close> with the native error
  text), called for a factory that returned \<^verbatim>\<open>nil\<close> it throws that failure.
\<close>
definition MTThrowIfCreateFailed :: "string \<Rightarrow> string \<Rightarrow> exn" where
  "MTThrowIfCreateFailed err interfaceName = BackendCreationFailed interfaceName err"

subsection \<open>The pipeline state object\<close>

text \<open>The member \<^verbatim>\<open>x_\<close> of the class is the field \<open>m_x\<close>.\<close>
record MTGraphicsPSO =
  isGraphicsPSO :: bool
  m_renderPipelineState :: "MTLRenderPipelineState option"
  m_depthStencilState :: "MTLDepthStencilState option"
  m_tessPipelineState :: "MTLComputePipelineState option"
  m_cullMode :: MTLCullMode
  m_winding :: MTLWinding
  m_fillMode :: MTLTriangleFillMode
  m_primitiveType :: MTLPrimitiveType
  m_clipMode :: MTLDepthClipMode
  m_depthBias :: float
  m_depthSlope :: float
  m_depthClamp :: float
  m_blendColorDynamic :: bool
  m_blendColorEnabled :: bool
  m_blendColor :: "float \<times> float \<times> float \<times> float"
  m_numPatchControlPoints :: NSUInteger
  m_patchType :: MTLPatchType
  m_stencilFrontRef :: uint32_t
  m_stencilBackRef :: uint32_t
  m_stencilRefDynamic :: bool

text \<open>The object being built, and the calls made on the device so far, oldest first.\<close>
record state =
  this :: MTGraphicsPSO
  device_calls :: "device_call list"

subsection \<open>Depth-stencil helpers\<close>

text \<open>\<^verbatim>\<open>Convert\<close> assigns all six properties of the stencil descriptor it is given.\<close>
definition Convert :: "Env \<Rightarrow> StencilFaceDescriptor \<Rightarrow> MTLStencilDescriptor" where
  "Convert env src =
     \<lparr> stencilFailureOperation = ToMTLStencilOperation env (stencilFailOp src),
       depthFailureOperation = ToMTLStencilOperation env (depthFailOp src),
       depthStencilPassOperation = ToMTLStencilOperation env (depthPassOp src),
       stencilCompareFunction = ToMTLCompareFunction env (compareOp src),
       mtl_readMask = readMask src,
       mtl_writeMask = writeMask src \<rparr>"

definition FillDefaultMTStencilDesc :: MTLStencilDescriptor where
  "FillDefaultMTStencilDesc =
     \<lparr> stencilFailureOperation = MTLStencilOperationKeep,
       depthFailureOperation = MTLStencilOperationKeep,
       depthStencilPassOperation = MTLStencilOperationKeep,
       stencilCompareFunction = MTLCompareFunctionAlways,
       mtl_readMask = 0,
       mtl_writeMask = 0 \<rparr>"

subsection \<open>Render pipeline helpers\<close>

definition ToMTLColorWriteMask :: "ColorRGBAb \<Rightarrow> MTLColorWriteMask" where
  "ToMTLColorWriteMask color =
     (let mask = MTLColorWriteMaskNone;
          mask = (if r color then mask OR MTLColorWriteMaskRed else mask);
          mask = (if g color then mask OR MTLColorWriteMaskGreen else mask);
          mask = (if b color then mask OR MTLColorWriteMaskBlue else mask);
          mask = (if a color then mask OR MTLColorWriteMaskAlpha else mask)
      in mask)"

text \<open>
  \<^verbatim>\<open>FillColorAttachmentDesc\<close> assigns all nine properties of the attachment
  descriptor \<^verbatim>\<open>dst\<close>; its parameter \<^verbatim>\<open>blendDesc\<close> is not read.
\<close>
definition FillColorAttachmentDesc ::
  "Env \<Rightarrow> MTLPixelFormat \<Rightarrow> BlendDescriptor \<Rightarrow> BlendTargetDescriptor
     \<Rightarrow> MTLRenderPipelineColorAttachmentDescriptor" where
  "FillColorAttachmentDesc env pixFormat blendDesc targetDesc =
     \<lparr> ca_pixelFormat = pixFormat,
       ca_writeMask = ToMTLColorWriteMask (colorMask targetDesc),
       blendingEnabled = (if blendEnabled targetDesc then True else False),
       alphaBlendOperation = ToMTLBlendOperation env (alphaArithmetic targetDesc),
       rgbBlendOperation = ToMTLBlendOperation env (colorArithmetic targetDesc),
       destinationAlphaBlendFactor = ToMTLBlendFactor env (dstAlpha targetDesc),
       destinationRGBBlendFactor = ToMTLBlendFactor env (dstColor targetDesc),
       sourceAlphaBlendFactor = ToMTLBlendFactor env (srcAlpha targetDesc),
       sourceRGBBlendFactor = ToMTLBlendFactor env (srcColor targetDesc) \<rparr>"

definition GetNativeMTShader :: "MTShader option \<Rightarrow> MTLFunction option" where
  "GetNativeMTShader shader = (case shader of None \<Rightarrow> None | Some sh \<Rightarrow> GetNative sh)"

text \<open>
  The loop \<^verbatim>\<open>for (i = 0, n = min(colorAttachments.size(), 8); i < n; ++i)\<close>, entered at
  index \<open>i\<close> with the attachment descriptors written so far.
\<close>
function FillColorAttachments ::
  "Env \<Rightarrow> MTAttachmentFormat list \<Rightarrow> BlendDescriptor \<Rightarrow> nat \<Rightarrow> nat
     \<Rightarrow> (nat \<rightharpoonup> MTLRenderPipelineColorAttachmentDescriptor)
     \<Rightarrow> (nat \<rightharpoonup> MTLRenderPipelineColorAttachmentDescriptor)" where
  "FillColorAttachments env atts blendDesc i n dst =
     (if i < n
      then FillColorAttachments env atts blendDesc (i + 1) n
             (dst(i \<mapsto> FillColorAttachmentDesc env (pixelFormat (atts ! i)) blendDesc
                          (targets blendDesc ! (if independentBlendEnabled blendDesc then i else 0))))
      else dst)"
  by pat_completeness auto
termination
  by (relation "measure (\<lambda>(env, atts, blendDesc, i, n, dst). n - i)") auto

declare FillColorAttachments.simps [simp del]

text \<open>
  The block that allocates and fills \<^verbatim>\<open>psoDesc\<close>, for the vertex shader and the render
  pass found before it and the patch control point count stored in the object.
\<close>
definition FillRenderPipelineDescriptor ::
  "Env \<Rightarrow> GraphicsPipelineDescriptor \<Rightarrow> MTShader \<Rightarrow> MTRenderPass \<Rightarrow> NSUInteger
     \<Rightarrow> MTLRenderPipelineDescriptor" where
  "FillRenderPipelineDescriptor env desc vertexShaderMT renderPassMT numPatchControlPoints =
     (let atts = GetColorAttachments renderPassMT;
          psoDesc =
            \<lparr> vertexDescriptor = GetMTLVertexDesc vertexShaderMT,
              mtl_alphaToCoverageEnabled = MTBoolean env (alphaToCoverageEnabled (blend desc)),
              alphaToOneEnabled = False,
              fragmentFunction = GetNativeMTShader (fragmentShader desc),
              vertexFunction = GetNativeMTShader (vertexShader desc),
              inputPrimitiveTopology =
                (if available_iOS_12_0 env
                 then Some (ToMTLPrimitiveTopologyClass env (primitiveTopology desc))
                 else None),
              colorAttachments =
                FillColorAttachments env atts (blend desc) 0 (min (length atts) 8) Map.empty,
              depthAttachmentPixelFormat = pixelFormat (GetDepthAttachment renderPassMT),
              stencilAttachmentPixelFormat = pixelFormat (GetStencilAttachment renderPassMT),
              rasterizationEnabled = (if discardEnabled (rasterizer desc) then False else True),
              rasterSampleCount =
                (if multiSampleEnabled (rasterizer desc) then GetSampleCount renderPassMT else 1),
              maxTessellationFactor = None,
              tessellationFactorScaleEnabled = None,
              tessellationFactorFormat = None,
              tessellationControlPointIndexType = None,
              tessellationFactorStepFunction = None,
              tessellationOutputWindingOrder = None,
              tessellationPartitionMode = None \<rparr>
      in if numPatchControlPoints > 0
         then psoDesc
           \<lparr> maxTessellationFactor :=
               Some (ucast (if LLGL_OS_IOS env
                            then min (maxTessFactor (tessellation desc)) 16
                            else min (maxTessFactor (tessellation desc)) 64)),
             tessellationFactorScaleEnabled := Some False,
             tessellationFactorFormat := Some MTLTessellationFactorFormatHalf,
             tessellationControlPointIndexType :=
               Some (ToMTLPatchIndexType env (indexFormat (tessellation desc))),
             tessellationFactorStepFunction :=
               Some MTLTessellationFactorStepFunctionPerPatchAndPerInstance,
             tessellationOutputWindingOrder :=
               Some (if outputWindingCCW (tessellation desc)
                     then MTLWindingCounterClockwise else MTLWindingClockwise),
             tessellationPartitionMode :=
               Some (ToMTLPartitionMode env (tess_partition (tessellation desc))) \<rparr>
         else psoDesc)"

subsection \<open>Construction\<close>

text \<open>
  The functions below return the exception thrown, if any, next to the state reached:
  the object as far as it had been assigned, and the device calls made until then.
\<close>
definition CreateRenderPipelineState ::
  "Env \<Rightarrow> MTLDevice \<Rightarrow> GraphicsPipelineDescriptor \<Rightarrow> MTRenderPass option \<Rightarrow> state
     \<Rightarrow> exn option \<times> state" where
  "CreateRenderPipelineState env device desc defaultRenderPass st =
     (case vertexShader desc of
        None \<Rightarrow>
          (Some (invalid_argument ''cannot create Metal pipeline without vertex shader''), st)
      | Some vertexShaderMT \<Rightarrow>
         (let st = st\<lparr>this := (this st)
                     \<lparr>m_numPatchControlPoints := GetNumPatchControlPoints vertexShaderMT\<rparr>\<rparr>;
              st = (case GetNative vertexShaderMT of
                      Some vertexFunc \<Rightarrow>
                        st\<lparr>this := (this st)\<lparr>m_patchType := patchType vertexFunc\<rparr>\<rparr>
                    | None \<Rightarrow> st)
          in (case (case renderPass desc of
                      Some rp \<Rightarrow> Some rp
                    | None \<Rightarrow> defaultRenderPass) of
               None \<Rightarrow>
                 (Some (invalid_argument
                          ''cannot create graphics pipeline without render pass''), st)
             | Some renderPassMT \<Rightarrow>
                (let psoDesc = FillRenderPipelineDescriptor env desc vertexShaderMT renderPassMT
                                 (m_numPatchControlPoints (this st));
                     st = st\<lparr>device_calls :=
                               device_calls st @ [NewRenderPipelineState psoDesc]\<rparr>
                 in (case newRenderPipelineStateWithDescriptor device psoDesc of
                      Inl err \<Rightarrow>
                        (Some (MTThrowIfCreateFailed err ''MTLRenderPipelineState''),
                         st\<lparr>this := (this st)\<lparr>m_renderPipelineState := None\<rparr>\<rparr>)
                    | Inr pipeline \<Rightarrow>
                       (let st = st\<lparr>this := (this st)
                                   \<lparr>m_renderPipelineState := Some pipeline\<rparr>\<rparr>
                        in if m_numPatchControlPoints (this st) > 0
                           then (case tessControlShader desc of
                                   Some tessComputeShaderMT \<Rightarrow>
                                    (let fn = GetNative tessComputeShaderMT;
                                         st = st\<lparr>device_calls :=
                                                  device_calls st @ [NewComputePipelineState fn]\<rparr>
                                     in (case newComputePipelineStateWithFunction device fn of
                                           Inl err \<Rightarrow>
                                             (Some (MTThrowIfCreateFailed err
                                                      ''MTLComputePipelineState''),
                                              st\<lparr>this := (this st)
                                                  \<lparr>m_tessPipelineState := None\<rparr>\<rparr>)
                                         | Inr tessPipeline \<Rightarrow>
                                             (None,
                                              st\<lparr>this := (this st)
                                                  \<lparr>m_tessPipelineState := Some tessPipeline\<rparr>\<rparr>)))
                                 | None \<Rightarrow>
                                     (Some (invalid_argument
                                        ''cannot create Metal tessellation pipeline without tessellation compute shader''),
                                      st))
                           else (None, st)))))))"

text \<open>The block that allocates and fills \<^verbatim>\<open>depthStencilDesc\<close>.\<close>
definition FillDepthStencilDescriptor ::
  "Env \<Rightarrow> GraphicsPipelineDescriptor \<Rightarrow> MTLDepthStencilDescriptor" where
  "FillDepthStencilDescriptor env desc =
     \<lparr> depthWriteEnabled = MTBoolean env (depth_writeEnabled (depth desc)),
       depthCompareFunction =
         (if depth_testEnabled (depth desc)
          then ToMTLCompareFunction env (depth_compareOp (depth desc))
          else MTLCompareFunctionAlways),
       frontFaceStencil =
         (if testEnabled (stencil desc)
          then Convert env (stencil_front (stencil desc))
          else FillDefaultMTStencilDesc),
       backFaceStencil =
         (if testEnabled (stencil desc)
          then Convert env (stencil_back (stencil desc))
          else FillDefaultMTStencilDesc) \<rparr>"

definition CreateDepthStencilState ::
  "Env \<Rightarrow> MTLDevice \<Rightarrow> GraphicsPipelineDescriptor \<Rightarrow> state \<Rightarrow> state" where
  "CreateDepthStencilState env device desc st =
     (let depthStencilDesc = FillDepthStencilDescriptor env desc;
          st = st\<lparr>this := (this st)
                     \<lparr>m_stencilFrontRef := reference (stencil_front (stencil desc)),
                      m_stencilBackRef := reference (stencil_back (stencil desc)),
                      m_stencilRefDynamic := referenceDynamic (stencil desc)\<rparr>\<rparr>;
          st = st\<lparr>device_calls := device_calls st @ [NewDepthStencilState depthStencilDesc]\<rparr>
      in st\<lparr>this := (this st)
              \<lparr>m_depthStencilState :=
                 newDepthStencilStateWithDescriptor device depthStencilDesc\<rparr>\<rparr>)"

text \<open>
  The start of the constructor: the base class initialiser and the block that converts
  the standalone parameters.
\<close>
definition ConvertStandaloneParameters ::
  "Env \<Rightarrow> GraphicsPipelineDescriptor \<Rightarrow> state \<Rightarrow> state" where
  "ConvertStandaloneParameters env desc st =
     st\<lparr>this := (this st)
        \<lparr>isGraphicsPSO := True,
         m_cullMode := ToMTLCullMode env (cullMode (rasterizer desc)),
         m_winding := (if frontCCW (rasterizer desc)
                       then MTLWindingCounterClockwise else MTLWindingClockwise),
         m_fillMode := ToMTLTriangleFillMode env (polygonMode (rasterizer desc)),
         m_primitiveType := ToMTLPrimitiveType env (primitiveTopology desc),
         m_clipMode := (if depthClampEnabled (rasterizer desc)
                        then MTLDepthClipModeClamp else MTLDepthClipModeClip),
         m_depthBias := constantFactor (depthBias (rasterizer desc)),
         m_depthSlope := slopeFactor (depthBias (rasterizer desc)),
         m_depthClamp := clamp (depthBias (rasterizer desc)),
         m_blendColorDynamic := blendFactorDynamic (blend desc),
         m_blendColorEnabled := IsStaticBlendFactorEnabled env (blend desc),
         m_blendColor := (r (blendFactor (blend desc)), g (blendFactor (blend desc)),
                          b (blendFactor (blend desc)), a (blendFactor (blend desc)))\<rparr>\<rparr>"

text \<open>
  The constructor \<^verbatim>\<open>MTGraphicsPSO::MTGraphicsPSO\<close>. The state it starts from holds the
  object as allocated (its default member initialisers are in \<^verbatim>\<open>MTGraphicsPSO.h\<close>, not
  among the sources) and the device calls made before. An exception of
  \<^verbatim>\<open>CreateRenderPipelineState\<close> leaves the constructor at once.
\<close>
definition MTGraphicsPSO_ctor ::
  "Env \<Rightarrow> MTLDevice \<Rightarrow> GraphicsPipelineDescriptor \<Rightarrow> MTRenderPass option \<Rightarrow> state
     \<Rightarrow> exn option \<times> state" where
  "MTGraphicsPSO_ctor env device desc defaultRenderPass st =
     (case CreateRenderPipelineState env device desc defaultRenderPass
             (ConvertStandaloneParameters env desc st) of
        (Some e, st) \<Rightarrow> (Some e, st)
      | (None, st) \<Rightarrow> (None, CreateDepthStencilState env device desc st))"

subsection \<open>Binding\<close>

datatype encoder_call =
    setRenderPipelineState "MTLRenderPipelineState option"
  | setDepthStencilState "MTLDepthStencilState option"
  | setCullMode MTLCullMode
  | setFrontFacingWinding MTLWinding
  | setTriangleFillMode MTLTriangleFillMode
  | setDepthClipMode MTLDepthClipMode
  | setDepthBias float float float
  | setStencilFrontReferenceValue_backReferenceValue uint32_t uint32_t
  | setStencilReferenceValue uint32_t
  | setBlendColor float float float float

text \<open>
  \<^verbatim>\<open>MTGraphicsPSO::Bind\<close>: the render command encoder is the list of calls it has
  received, oldest first.
\<close>
definition Bind :: "Env \<Rightarrow> MTGraphicsPSO \<Rightarrow> encoder_call list \<Rightarrow> encoder_call list" where
  "Bind env pso renderEncoder =
     (let renderEncoder = renderEncoder @
            [setRenderPipelineState (m_renderPipelineState pso),
             setDepthStencilState (m_depthStencilState pso),
             setCullMode (m_cullMode pso),
             setFrontFacingWinding (m_winding pso),
             setTriangleFillMode (m_fillMode pso)];
          renderEncoder =
            (if available_macOS_10_11_iOS_11 env
             then renderEncoder @ [setDepthClipMode (m_clipMode pso)]
             else renderEncoder);
          renderEncoder =
            (if \<not> LLGL_OS_IOS env
             then (let renderEncoder = renderEncoder @
                         [setDepthBias (m_depthBias pso) (m_depthSlope pso) (m_depthClamp pso)]
                   in if \<not> m_stencilRefDynamic pso
                      then (if m_stencilFrontRef pso \<noteq> m_stencilBackRef pso
                            then renderEncoder @
                                   [setStencilFrontReferenceValue_backReferenceValue
                                      (m_stencilFrontRef pso) (m_stencilBackRef pso)]
                            else renderEncoder @ [setStencilReferenceValue (m_stencilFrontRef pso)])
                      else renderEncoder)
             else renderEncoder)
      in if m_blendColorEnabled pso
         then (case m_blendColor pso of
                 (c0, c1, c2, c3) \<Rightarrow> renderEncoder @ [setBlendColor c0 c1 c2 c3])
         else renderEncoder)"

text \<open>The calls of an encoder that set a stencil reference value, in either form.\<close>
fun is_stencil_reference_call :: "encoder_call \<Rightarrow> bool" where
  "is_stencil_reference_call (setStencilFrontReferenceValue_backReferenceValue f k) = True"
| "is_stencil_reference_call (setStencilReferenceValue f) = True"
| "is_stencil_reference_call c = False"

text \<open>
  The exception of \<^verbatim>\<open>CreateRenderPipelineState\<close> for a tessellation pipeline without a
  compute shader.
\<close>
definition tess_error :: exn where
  "tess_error = invalid_argument
     ''cannot create Metal tessellation pipeline without tessellation compute shader''"

subsection \<open>Concrete inputs\<close>

text \<open>
  A desktop platform with a small conversion table, a device that creates whatever it
  is asked for and one that rejects every render pipeline, a render pass with nine
  colour attachments, and a pipeline descriptor with eight different blend targets.
\<close>
definition sample_env :: Env where
  "sample_env =
     \<lparr> ToMTLCullMode = nat, ToMTLTriangleFillMode = nat, ToMTLPrimitiveType = nat,
       ToMTLPrimitiveTopologyClass = nat,
       ToMTLStencilOperation =
         (\<lambda>op. if op = 0 then MTLStencilOperationKeep
               else if op = 1 then MTLStencilOperationZero else MTLStencilOperationReplace),
       ToMTLCompareFunction =
         (\<lambda>op. if op = 7 then MTLCompareFunctionAlways
               else if op = 1 then MTLCompareFunctionLess else MTLCompareFunctionNever),
       ToMTLBlendOperation = nat, ToMTLBlendFactor = nat, ToMTLPatchIndexType = nat,
       ToMTLPartitionMode = nat,
       MTBoolean = (\<lambda>v. v),
       IsStaticBlendFactorEnabled = (\<lambda>blendDesc. False),
       LLGL_OS_IOS = False,
       available_macOS_10_11_iOS_11 = True,
       available_iOS_12_0 = True \<rparr>"

definition sample_device :: MTLDevice where
  "sample_device =
     \<lparr> newRenderPipelineStateWithDescriptor = (\<lambda>psoDesc. Inr 1),
       newComputePipelineStateWithFunction = (\<lambda>fn. Inr 2),
       newDepthStencilStateWithDescriptor = (\<lambda>depthStencilDesc. Some 3) \<rparr>"


definition sample_target :: "int \<Rightarrow> BlendTargetDescriptor" where
  "sample_target k =
     \<lparr> blendEnabled = (k = 0), srcColor = k, dstColor = k + 1, colorArithmetic = 0,
       srcAlpha = k + 2, dstAlpha = k + 3, alphaArithmetic = 1,
       colorMask = \<lparr> r = True, g = True, b = (k = 0), a = False \<rparr> \<rparr>"

definition sample_renderPass :: MTRenderPass where
  "sample_renderPass =
     \<lparr> GetColorAttachments =
         [\<lparr>pixelFormat = 70\<rparr>, \<lparr>pixelFormat = 71\<rparr>, \<lparr>pixelFormat = 72\<rparr>,
          \<lparr>pixelFormat = 73\<rparr>, \<lparr>pixelFormat = 74\<rparr>, \<lparr>pixelFormat = 75\<rparr>,
          \<lparr>pixelFormat = 76\<rparr>, \<lparr>pixelFormat = 77\<rparr>, \<lparr>pixelFormat = 78\<rparr>],
       GetDepthAttachment = \<lparr>pixelFormat = 252\<rparr>,
       GetStencilAttachment = \<lparr>pixelFormat = 253\<rparr>,
       GetSampleCount = 4 \<rparr>"

definition sample_shader :: "NSUInteger \<Rightarrow> MTShader" where
  "sample_shader n =
     \<lparr> GetNative = Some \<lparr> function_id = 11, patchType = MTLPatchTypeNone \<rparr>,
       GetNumPatchControlPoints = n,
       GetMTLVertexDesc = Some 5 \<rparr>"

definition sample_desc :: GraphicsPipelineDescriptor where
  "sample_desc =
     \<lparr> vertexShader = Some (sample_shader 0),
       tessControlShader = None,
       fragmentShader = None,
       renderPass = Some sample_renderPass,
       primitiveTopology = 6,
       depth = \<lparr> depth_testEnabled = False, depth_writeEnabled = True, depth_compareOp = 1 \<rparr>,
       stencil =
         \<lparr> testEnabled = False, referenceDynamic = False,
           stencil_front =
             \<lparr> stencilFailOp = 1, depthFailOp = 1, depthPassOp = 2, compareOp = 1,
               readMask = 255, writeMask = 255, reference = 4 \<rparr>,
           stencil_back =
             \<lparr> stencilFailOp = 2, depthFailOp = 1, depthPassOp = 1, compareOp = 1,
               readMask = 15, writeMask = 15, reference = 4 \<rparr> \<rparr>,
       rasterizer =
         \<lparr> cullMode = 0, frontCCW = False, polygonMode = 0, depthClampEnabled = False,
           depthBias = \<lparr> constantFactor = 0, slopeFactor = 0, clamp = 0 \<rparr>,
           discardEnabled = False, multiSampleEnabled = False \<rparr>,
       blend =
         \<lparr> alphaToCoverageEnabled = False, independentBlendEnabled = False,
           blendFactor = \<lparr> r = 0, g = 0, b = 0, a = 0 \<rparr>,
           blendFactorDynamic = False,
           targets = [sample_target 0, sample_target 1, sample_target 2, sample_target 3,
                      sample_target 4, sample_target 5, sample_target 6, sample_target 7] \<rparr>,
       tessellation =
         \<lparr> tess_partition = 0, indexFormat = 0, maxTessFactor = 100,
           outputWindingCCW = False \<rparr> \<rparr>"

text \<open>An object before its constructor has run, and a device that has not been called.\<close>
definition fresh_state :: state where
  "fresh_state =
     \<lparr> this =
         \<lparr> isGraphicsPSO = False,
           m_renderPipelineState = None, m_depthStencilState = None,
           m_tessPipelineState = None,
           m_cullMode = 0, m_winding = MTLWindingClockwise, m_fillMode = 0,
           m_primitiveType = 0, m_clipMode = MTLDepthClipModeClip,
           m_depthBias = 0, m_depthSlope = 0, m_depthClamp = 0,
           m_blendColorDynamic = False, m_blendColorEnabled = False,
           m_blendColor = (0, 0, 0, 0),
           m_numPatchControlPoints = 0, m_patchType = MTLPatchTypeNone,
           m_stencilFrontRef = 0, m_stencilBackRef = 0, m_stencilRefDynamic = False \<rparr>,
       device_calls = [] \<rparr>"

section \<open>Properties\<close>

subsection \<open>The colour attachment loop\<close>

lemma FillColorAttachments_apply:
  "FillColorAttachments env atts blendDesc i n dst k =
     (if i \<le> k \<and> k < n
      then Some (FillColorAttachmentDesc env (pixelFormat (atts ! k)) blendDesc
                   (targets blendDesc ! (if independentBlendEnabled blendDesc then k else 0)))
      else dst k)"
proof (induction env atts blendDesc i n dst rule: FillColorAttachments.induct)
  case (1 env atts blendDesc i n dst)
  let ?v = "\<lambda>k. FillColorAttachmentDesc env (pixelFormat (atts ! k)) blendDesc
                   (targets blendDesc ! (if independentBlendEnabled blendDesc then k else 0))"
  show ?case
  proof (cases "i < n")
    case True
    have "FillColorAttachments env atts blendDesc i n dst k =
          FillColorAttachments env atts blendDesc (i + 1) n (dst(i \<mapsto> ?v i)) k"
      using True by (subst FillColorAttachments.simps) simp
    also have "\<dots> = (if i + 1 \<le> k \<and> k < n then Some (?v k) else (dst(i \<mapsto> ?v i)) k)"
      by (rule "1.IH" [OF True])
    also have "\<dots> = (if i \<le> k \<and> k < n then Some (?v k) else dst k)"
      using True by auto
    finally show ?thesis .
  next
    case False
    then show ?thesis
      by (subst FillColorAttachments.simps) auto
  qed
qed

lemma FillColorAttachments_dom:
  "dom (FillColorAttachments env atts blendDesc 0 n Map.empty) = {k. k < n}"
  by (auto simp: FillColorAttachments_apply dom_def)

lemma FillColorAttachments_take:
  "n \<le> m \<Longrightarrow> FillColorAttachments env (take m atts) blendDesc i n dst =
     FillColorAttachments env atts blendDesc i n dst"
  by (rule ext) (simp add: FillColorAttachments_apply)

lemma colorAttachments_FillRenderPipelineDescriptor:
  "colorAttachments (FillRenderPipelineDescriptor env desc vs rp npc) =
     FillColorAttachments env (GetColorAttachments rp) (blend desc) 0
       (min (length (GetColorAttachments rp)) 8) Map.empty"
  by (simp add: FillRenderPipelineDescriptor_def Let_def)

lemma FillRenderPipelineDescriptor_take:
  "FillRenderPipelineDescriptor env desc vs
       (rp\<lparr>GetColorAttachments := take 8 (GetColorAttachments rp)\<rparr>) npc =
   FillRenderPipelineDescriptor env desc vs rp npc"
  by (simp add: FillRenderPipelineDescriptor_def Let_def FillColorAttachments_take min_def)

subsection \<open>The steps of the constructor\<close>

lemma CreateRenderPipelineState_no_vertex:
  "vertexShader desc = None \<Longrightarrow>
   CreateRenderPipelineState env device desc dflt st =
     (Some (invalid_argument ''cannot create Metal pipeline without vertex shader''), st)"
  by (simp add: CreateRenderPipelineState_def)

lemma CreateRenderPipelineState_no_render_pass:
  "renderPass desc = None \<Longrightarrow> dflt = None \<Longrightarrow>
   \<exists>msg. fst (CreateRenderPipelineState env device desc dflt st) = Some (invalid_argument msg)"
  by (simp add: CreateRenderPipelineState_def Let_def split: option.splits)

lemma CreateRenderPipelineState_no_render_pass_calls:
  "renderPass desc = None \<Longrightarrow> dflt = None \<Longrightarrow>
   device_calls (snd (CreateRenderPipelineState env device desc dflt st)) = device_calls st"
  by (simp add: CreateRenderPipelineState_def Let_def split: option.splits)

lemma CreateRenderPipelineState_fst:
  assumes "vertexShader desc = Some vs"
    and "(case renderPass desc of Some rp \<Rightarrow> Some rp | None \<Rightarrow> dflt) = Some rp"
  shows "fst (CreateRenderPipelineState env device desc dflt st) =
     (case newRenderPipelineStateWithDescriptor device
             (FillRenderPipelineDescriptor env desc vs rp (GetNumPatchControlPoints vs)) of
        Inl err \<Rightarrow> Some (MTThrowIfCreateFailed err ''MTLRenderPipelineState'')
      | Inr pipeline \<Rightarrow>
          if GetNumPatchControlPoints vs > 0
          then (case tessControlShader desc of
                  None \<Rightarrow> Some (invalid_argument
                    ''cannot create Metal tessellation pipeline without tessellation compute shader'')
                | Some ts \<Rightarrow>
                    (case newComputePipelineStateWithFunction device (GetNative ts) of
                       Inl err \<Rightarrow> Some (MTThrowIfCreateFailed err ''MTLComputePipelineState'')
                     | Inr tessPipeline \<Rightarrow> None))
          else None)"
  using assms
  by (simp add: CreateRenderPipelineState_def Let_def split: option.splits sum.splits)

lemma CreateRenderPipelineState_calls:
  assumes "vertexShader desc = Some vs"
    and "(case renderPass desc of Some rp \<Rightarrow> Some rp | None \<Rightarrow> dflt) = Some rp"
  shows "device_calls (snd (CreateRenderPipelineState env device desc dflt st)) =
     device_calls st @
     NewRenderPipelineState
       (FillRenderPipelineDescriptor env desc vs rp (GetNumPatchControlPoints vs)) #
     (case newRenderPipelineStateWithDescriptor device
             (FillRenderPipelineDescriptor env desc vs rp (GetNumPatchControlPoints vs)) of
        Inl err \<Rightarrow> []
      | Inr pipeline \<Rightarrow>
          if GetNumPatchControlPoints vs > 0
          then (case tessControlShader desc of
                  None \<Rightarrow> []
                | Some ts \<Rightarrow> [NewComputePipelineState (GetNative ts)])
          else [])"
  using assms
  by (simp add: CreateRenderPipelineState_def Let_def split: option.splits sum.splits)

lemma CreateRenderPipelineState_handle:
  assumes "vertexShader desc = Some vs"
    and "(case renderPass desc of Some rp \<Rightarrow> Some rp | None \<Rightarrow> dflt) = Some rp"
  shows "m_renderPipelineState (this (snd (CreateRenderPipelineState env device desc dflt st))) =
     (case newRenderPipelineStateWithDescriptor device
             (FillRenderPipelineDescriptor env desc vs rp (GetNumPatchControlPoints vs)) of
        Inl err \<Rightarrow> None
      | Inr pipeline \<Rightarrow> Some pipeline)"
  using assms
  by (simp add: CreateRenderPipelineState_def Let_def split: option.splits sum.splits)

lemma device_calls_ConvertStandaloneParameters:
  "device_calls (ConvertStandaloneParameters env desc st) = device_calls st"
  by (simp add: ConvertStandaloneParameters_def)

lemma ctor_fst:
  "fst (MTGraphicsPSO_ctor env device desc dflt st) =
   fst (CreateRenderPipelineState env device desc dflt (ConvertStandaloneParameters env desc st))"
  by (simp add: MTGraphicsPSO_ctor_def split: prod.splits option.splits)

lemma ctor_calls:
  "device_calls (snd (MTGraphicsPSO_ctor env device desc dflt st)) =
   device_calls (snd (CreateRenderPipelineState env device desc dflt
                        (ConvertStandaloneParameters env desc st))) @
   (case fst (CreateRenderPipelineState env device desc dflt
                (ConvertStandaloneParameters env desc st)) of
      Some e \<Rightarrow> []
    | None \<Rightarrow> [NewDepthStencilState (FillDepthStencilDescriptor env desc)])"
  by (simp add: MTGraphicsPSO_ctor_def CreateDepthStencilState_def Let_def
           split: prod.splits option.splits)

lemma ctor_handle:
  "m_renderPipelineState (this (snd (MTGraphicsPSO_ctor env device desc dflt st))) =
   m_renderPipelineState (this (snd (CreateRenderPipelineState env device desc dflt
                                       (ConvertStandaloneParameters env desc st))))"
  by (simp add: MTGraphicsPSO_ctor_def CreateDepthStencilState_def Let_def
           split: prod.splits option.splits)

lemma ctor_success_depth_stencil:
  assumes "fst (MTGraphicsPSO_ctor env device desc dflt st) = None"
  shows "snd (MTGraphicsPSO_ctor env device desc dflt st) =
         CreateDepthStencilState env device desc
           (snd (CreateRenderPipelineState env device desc dflt
                   (ConvertStandaloneParameters env desc st)))"
  using assms
  by (simp add: MTGraphicsPSO_ctor_def split: prod.splits option.splits)

lemma CreateDepthStencilState_this:
  "m_depthStencilState (this (CreateDepthStencilState env device desc s)) =
     newDepthStencilStateWithDescriptor device (FillDepthStencilDescriptor env desc) \<and>
   m_stencilFrontRef (this (CreateDepthStencilState env device desc s)) =
     reference (stencil_front (stencil desc)) \<and>
   m_stencilBackRef (this (CreateDepthStencilState env device desc s)) =
     reference (stencil_back (stencil desc)) \<and>
   m_stencilRefDynamic (this (CreateDepthStencilState env device desc s)) =
     referenceDynamic (stencil desc) \<and>
   device_calls (CreateDepthStencilState env device desc s) =
     device_calls s @ [NewDepthStencilState (FillDepthStencilDescriptor env desc)]"
  by (simp add: CreateDepthStencilState_def Let_def)

lemma ctor_sample_succeeds:
  assumes "vertexShader desc = Some (sample_shader 0)"
    and "renderPass desc = Some rp"
  shows "fst (MTGraphicsPSO_ctor env sample_device desc None fresh_state) = None"
proof -
  have res: "(case renderPass desc of Some rp \<Rightarrow> Some rp | None \<Rightarrow> None) = Some rp"
    using assms by simp
  have n0: "GetNumPatchControlPoints (sample_shader 0) = 0"
    and dev: "\<And>psoDesc. newRenderPipelineStateWithDescriptor sample_device psoDesc = Inr 1"
    by (simp_all add: sample_shader_def sample_device_def)
  show ?thesis
    by (simp add: ctor_fst CreateRenderPipelineState_fst [OF assms(1) res] n0 dev)
qed

subsection \<open>Missing vertex shader\<close>

text \<open>
  C4. When the vertex shader handle of the descriptor is null, the constructor throws
  \<^verbatim>\<open>std::invalid_argument\<close> and no factory method of the device has been called:
  the calls made on the device are those made before.
\<close>
theorem C4_missing_vertex_shader:
  assumes "vertexShader desc = None"
  shows "fst (MTGraphicsPSO_ctor env device desc defaultRenderPass st) =
           Some (invalid_argument ''cannot create Metal pipeline without vertex shader'') \<and>
         device_calls (snd (MTGraphicsPSO_ctor env device desc defaultRenderPass st)) =
           device_calls st"
  using assms
  by (simp add: ctor_fst ctor_calls CreateRenderPipelineState_no_vertex
        device_calls_ConvertStandaloneParameters)

theorem C4_missing_vertex_shader_witness:
  "vertexShader (sample_desc\<lparr>vertexShader := None\<rparr>) = None \<and>
   fst (MTGraphicsPSO_ctor sample_env sample_device (sample_desc\<lparr>vertexShader := None\<rparr>)
          (Some sample_renderPass) fresh_state) =
     Some (invalid_argument ''cannot create Metal pipeline without vertex shader'') \<and>
   device_calls (snd (MTGraphicsPSO_ctor sample_env sample_device
          (sample_desc\<lparr>vertexShader := None\<rparr>) (Some sample_renderPass) fresh_state)) = []"
  using C4_missing_vertex_shader [of "sample_desc\<lparr>vertexShader := None\<rparr>" sample_env
      sample_device "Some sample_renderPass" fresh_state]
  by (simp add: fresh_state_def)



subsection \<open>Render pass resolution\<close>

text \<open>
  C5. The render pass the pipeline descriptor is filled from is \<^verbatim>\<open>desc.renderPass\<close>
  when that is not null, whatever the default render pass is, and the default render
  pass when \<^verbatim>\<open>desc.renderPass\<close> is null and the default is not: the first call the
  constructor makes on the device creates a render pipeline state from the descriptor
  filled from that render pass. When both are null the constructor throws
  \<^verbatim>\<open>std::invalid_argument\<close>, with or without a vertex shader, and has called no
  factory method of the device.
\<close>
theorem C5_render_pass_resolution:
  "(vertexShader desc = Some vs \<and> renderPass desc = Some rp \<longrightarrow>
      (\<exists>rest. device_calls (snd (MTGraphicsPSO_ctor env device desc defaultRenderPass st)) =
         device_calls st @
         NewRenderPipelineState
           (FillRenderPipelineDescriptor env desc vs rp (GetNumPatchControlPoints vs)) # rest)) \<and>
   (vertexShader desc = Some vs \<and> renderPass desc = None \<and> defaultRenderPass = Some rp \<longrightarrow>
      (\<exists>rest. device_calls (snd (MTGraphicsPSO_ctor env device desc defaultRenderPass st)) =
         device_calls st @
         NewRenderPipelineState
           (FillRenderPipelineDescriptor env desc vs rp (GetNumPatchControlPoints vs)) # rest)) \<and>
   (renderPass desc = None \<and> defaultRenderPass = None \<longrightarrow>
      (\<exists>msg. fst (MTGraphicsPSO_ctor env device desc defaultRenderPass st) =
         Some (invalid_argument msg)) \<and>
      device_calls (snd (MTGraphicsPSO_ctor env device desc defaultRenderPass st)) =
        device_calls st)"
proof (intro conjI impI)
  assume h: "vertexShader desc = Some vs \<and> renderPass desc = Some rp"
  then have "(case renderPass desc of Some rp \<Rightarrow> Some rp | None \<Rightarrow> defaultRenderPass) = Some rp"
    by simp
  with h show "\<exists>rest. device_calls (snd (MTGraphicsPSO_ctor env device desc defaultRenderPass st)) =
         device_calls st @
         NewRenderPipelineState
           (FillRenderPipelineDescriptor env desc vs rp (GetNumPatchControlPoints vs)) # rest"
    by (simp add: ctor_calls CreateRenderPipelineState_calls
          device_calls_ConvertStandaloneParameters)
next
  assume h: "vertexShader desc = Some vs \<and> renderPass desc = None \<and> defaultRenderPass = Some rp"
  then have "(case renderPass desc of Some rp \<Rightarrow> Some rp | None \<Rightarrow> defaultRenderPass) = Some rp"
    by simp
  with h show "\<exists>rest. device_calls (snd (MTGraphicsPSO_ctor env device desc defaultRenderPass st)) =
         device_calls st @
         NewRenderPipelineState
           (FillRenderPipelineDescriptor env desc vs rp (GetNumPatchControlPoints vs)) # rest"
    by (simp add: ctor_calls CreateRenderPipelineState_calls
          device_calls_ConvertStandaloneParameters)
next
  assume h: "renderPass desc = None \<and> defaultRenderPass = None"
  then show "\<exists>msg. fst (MTGraphicsPSO_ctor env device desc defaultRenderPass st) =
         Some (invalid_argument msg)"
    by (simp add: ctor_fst CreateRenderPipelineState_no_render_pass)
next
  assume h: "renderPass desc = None \<and> defaultRenderPass = None"
  then obtain msg where
    "fst (CreateRenderPipelineState env device desc defaultRenderPass
            (ConvertStandaloneParameters env desc st)) = Some (invalid_argument msg)"
    using CreateRenderPipelineState_no_render_pass by blast
  with h show "device_calls (snd (MTGraphicsPSO_ctor env device desc defaultRenderPass st)) =
        device_calls st"
    by (simp add: ctor_calls CreateRenderPipelineState_no_render_pass_calls
          device_calls_ConvertStandaloneParameters)
qed


theorem C5_render_pass_resolution_witness:
  "(\<exists>rest. device_calls (snd (MTGraphicsPSO_ctor sample_env sample_device sample_desc
        (Some (sample_renderPass\<lparr>GetColorAttachments := []\<rparr>)) fresh_state)) =
      NewRenderPipelineState
        (FillRenderPipelineDescriptor sample_env sample_desc (sample_shader 0)
           sample_renderPass 0) # rest) \<and>
   (\<exists>rest. device_calls (snd (MTGraphicsPSO_ctor sample_env sample_device
        (sample_desc\<lparr>renderPass := None\<rparr>) (Some sample_renderPass) fresh_state)) =
      NewRenderPipelineState
        (FillRenderPipelineDescriptor sample_env (sample_desc\<lparr>renderPass := None\<rparr>)
           (sample_shader 0) sample_renderPass 0) # rest) \<and>
   (\<exists>msg. fst (MTGraphicsPSO_ctor sample_env sample_device
        (sample_desc\<lparr>renderPass := None\<rparr>) None fresh_state) = Some (invalid_argument msg)) \<and>
   device_calls (snd (MTGraphicsPSO_ctor sample_env sample_device
        (sample_desc\<lparr>renderPass := None\<rparr>) None fresh_state)) = []"
proof -
  have vs: "vertexShader sample_desc = Some (sample_shader 0)"
    and rp: "renderPass sample_desc = Some sample_renderPass"
    and n: "GetNumPatchControlPoints (sample_shader 0) = 0"
    and calls: "device_calls fresh_state = []"
    by (simp_all add: sample_desc_def sample_shader_def fresh_state_def)
  show ?thesis
    using C5_render_pass_resolution [where desc = sample_desc and vs = "sample_shader 0"
        and rp = sample_renderPass and env = sample_env and device = sample_device
        and defaultRenderPass = "Some (sample_renderPass\<lparr>GetColorAttachments := []\<rparr>)"
        and st = fresh_state]
      C5_render_pass_resolution [where desc = "sample_desc\<lparr>renderPass := None\<rparr>"
        and vs = "sample_shader 0" and rp = sample_renderPass and env = sample_env
        and device = sample_device and defaultRenderPass = "Some sample_renderPass"
        and st = fresh_state]
      C5_render_pass_resolution [where desc = "sample_desc\<lparr>renderPass := None\<rparr>"
        and vs = "sample_shader 0" and rp = sample_renderPass and env = sample_env
        and device = sample_device and defaultRenderPass = None and st = fresh_state]
    by (simp add: vs rp n calls)
qed


subsection \<open>The missing tessellation compute shader is found after the pipeline is created\<close>

text \<open>
  C10. For a vertex shader with patch control points and a null tessellation control
  shader: the exception for the missing tessellation compute shader is thrown exactly
  when a render pass is found and the device has created the render pipeline state; and
  whenever it is thrown, the one call made on the device is that creation, and the
  object holds the pipeline state the device returned.
\<close>
theorem C10_tessellation_error_after_creation:
  assumes vs: "vertexShader desc = Some vs"
    and n: "0 < GetNumPatchControlPoints vs"
    and tcs: "tessControlShader desc = None"
  shows
    "(\<forall>rp pipeline.
        (renderPass desc = Some rp \<or> renderPass desc = None \<and> defaultRenderPass = Some rp) \<and>
        newRenderPipelineStateWithDescriptor device
          (FillRenderPipelineDescriptor env desc vs rp (GetNumPatchControlPoints vs)) =
          Inr pipeline \<longrightarrow>
        fst (MTGraphicsPSO_ctor env device desc defaultRenderPass st) = Some tess_error) \<and>
     (fst (MTGraphicsPSO_ctor env device desc defaultRenderPass st) = Some tess_error \<longrightarrow>
        (\<exists>rp pipeline.
           (renderPass desc = Some rp \<or> renderPass desc = None \<and> defaultRenderPass = Some rp) \<and>
           newRenderPipelineStateWithDescriptor device
             (FillRenderPipelineDescriptor env desc vs rp (GetNumPatchControlPoints vs)) =
             Inr pipeline \<and>
           device_calls (snd (MTGraphicsPSO_ctor env device desc defaultRenderPass st)) =
             device_calls st @
             [NewRenderPipelineState
                (FillRenderPipelineDescriptor env desc vs rp (GetNumPatchControlPoints vs))] \<and>
           m_renderPipelineState
             (this (snd (MTGraphicsPSO_ctor env device desc defaultRenderPass st))) =
             Some pipeline))"
proof (intro conjI allI impI)
  fix rp pipeline
  assume h: "(renderPass desc = Some rp \<or> renderPass desc = None \<and> defaultRenderPass = Some rp) \<and>
        newRenderPipelineStateWithDescriptor device
          (FillRenderPipelineDescriptor env desc vs rp (GetNumPatchControlPoints vs)) =
          Inr pipeline"
  then have res: "(case renderPass desc of Some rp \<Rightarrow> Some rp | None \<Rightarrow> defaultRenderPass) = Some rp"
    by auto
  show "fst (MTGraphicsPSO_ctor env device desc defaultRenderPass st) = Some tess_error"
    using h n tcs
    by (simp add: ctor_fst CreateRenderPipelineState_fst [OF vs res] tess_error_def)
next
  assume e: "fst (MTGraphicsPSO_ctor env device desc defaultRenderPass st) = Some tess_error"
  let ?st = "ConvertStandaloneParameters env desc st"
  show "\<exists>rp pipeline.
           (renderPass desc = Some rp \<or> renderPass desc = None \<and> defaultRenderPass = Some rp) \<and>
           newRenderPipelineStateWithDescriptor device
             (FillRenderPipelineDescriptor env desc vs rp (GetNumPatchControlPoints vs)) =
             Inr pipeline \<and>
           device_calls (snd (MTGraphicsPSO_ctor env device desc defaultRenderPass st)) =
             device_calls st @
             [NewRenderPipelineState
                (FillRenderPipelineDescriptor env desc vs rp (GetNumPatchControlPoints vs))] \<and>
           m_renderPipelineState
             (this (snd (MTGraphicsPSO_ctor env device desc defaultRenderPass st))) =
             Some pipeline"
  proof (cases "case renderPass desc of Some rp \<Rightarrow> Some rp | None \<Rightarrow> defaultRenderPass")
    case None
    then have "renderPass desc = None" and "defaultRenderPass = None"
      by (simp_all split: option.splits)
    then have "fst (CreateRenderPipelineState env device desc defaultRenderPass ?st) =
        Some (invalid_argument ''cannot create graphics pipeline without render pass'')"
      using vs by (simp add: CreateRenderPipelineState_def Let_def split: option.splits)
    with e show ?thesis
      by (simp add: ctor_fst tess_error_def)
  next
    case (Some rp)
    then have disj: "renderPass desc = Some rp \<or> renderPass desc = None \<and> defaultRenderPass = Some rp"
      by (auto split: option.splits)
    let ?psoDesc = "FillRenderPipelineDescriptor env desc vs rp (GetNumPatchControlPoints vs)"
    show ?thesis
    proof (cases "newRenderPipelineStateWithDescriptor device ?psoDesc")
      case (Inl err)
      with e show ?thesis
        by (simp add: ctor_fst CreateRenderPipelineState_fst [OF vs Some] tess_error_def
              MTThrowIfCreateFailed_def)
    next
      case (Inr pipeline)
      have "device_calls (snd (MTGraphicsPSO_ctor env device desc defaultRenderPass st)) =
             device_calls st @ [NewRenderPipelineState ?psoDesc]"
        using Inr n tcs
        by (simp add: ctor_calls CreateRenderPipelineState_calls [OF vs Some]
              CreateRenderPipelineState_fst [OF vs Some]
              device_calls_ConvertStandaloneParameters)
      moreover have "m_renderPipelineState
             (this (snd (MTGraphicsPSO_ctor env device desc defaultRenderPass st))) =
             Some pipeline"
        using Inr by (simp add: ctor_handle CreateRenderPipelineState_handle [OF vs Some])
      ultimately show ?thesis
        using disj Inr by blast
    qed
  qed
qed


theorem C10_tessellation_error_after_creation_witness:
  "vertexShader (sample_desc\<lparr>vertexShader := Some (sample_shader 3)\<rparr>) = Some (sample_shader 3) \<and>
   0 < GetNumPatchControlPoints (sample_shader 3) \<and>
   tessControlShader (sample_desc\<lparr>vertexShader := Some (sample_shader 3)\<rparr>) = None \<and>
   fst (MTGraphicsPSO_ctor sample_env sample_device
          (sample_desc\<lparr>vertexShader := Some (sample_shader 3)\<rparr>) None fresh_state) =
     Some tess_error \<and>
   device_calls (snd (MTGraphicsPSO_ctor sample_env sample_device
          (sample_desc\<lparr>vertexShader := Some (sample_shader 3)\<rparr>) None fresh_state)) =
     [NewRenderPipelineState
        (FillRenderPipelineDescriptor sample_env
           (sample_desc\<lparr>vertexShader := Some (sample_shader 3)\<rparr>) (sample_shader 3)
           sample_renderPass 3)] \<and>
   m_renderPipelineState (this (snd (MTGraphicsPSO_ctor sample_env sample_device
          (sample_desc\<lparr>vertexShader := Some (sample_shader 3)\<rparr>) None fresh_state))) = Some 1"
proof -
  let ?desc = "sample_desc\<lparr>vertexShader := Some (sample_shader 3)\<rparr>"
  have vs: "vertexShader ?desc = Some (sample_shader 3)"
    and n: "0 < GetNumPatchControlPoints (sample_shader 3)"
    and n3: "GetNumPatchControlPoints (sample_shader 3) = 3"
    and tcs: "tessControlShader ?desc = None"
    and rp: "renderPass ?desc = Some sample_renderPass"
    and dev: "\<And>psoDesc. newRenderPipelineStateWithDescriptor sample_device psoDesc = Inr 1"
    and calls: "device_calls fresh_state = []"
    by (simp_all add: sample_desc_def sample_shader_def sample_device_def fresh_state_def)
  show ?thesis
    using C10_tessellation_error_after_creation [OF vs n tcs, of None sample_device sample_env
        fresh_state]
    by (auto simp add: vs n3 tcs rp dev calls)
qed



subsection \<open>The maximum tessellation factor\<close>

lemma unat_ucast_min_32_64:
  "unat (ucast (min w c :: 32 word) :: 64 word) = min (unat w) (unat c)"
proof -
  have "unat (ucast (min w c :: 32 word) :: 64 word) = unat (min w c)"
  proof -
    have "unat (min w c) < 2 ^ 64"
      by (rule less_trans [OF unsigned_less]) simp
    then show ?thesis
      by (simp add: unsigned_ucast_eq take_bit_nat_eq_self)
  qed
  also have "\<dots> = min (unat w) (unat c)"
    by (simp add: min_def word_le_nat_alt)
  finally show ?thesis .
qed

lemma maxTessellationFactor_Fill:
  "0 < npc \<Longrightarrow>
   maxTessellationFactor (FillRenderPipelineDescriptor env desc vs rp npc) =
     Some (ucast (min (maxTessFactor (tessellation desc)) (if LLGL_OS_IOS env then 16 else 64)))"
  by (simp add: FillRenderPipelineDescriptor_def Let_def)

text \<open>
  C9. For a vertex shader with patch control points, the render pipeline descriptor the
  constructor hands to the device has as its maximum tessellation factor the smaller of
  \<^verbatim>\<open>desc.tessellation.maxTessFactor\<close> and the platform limit: 16 where
  \<^verbatim>\<open>LLGL_OS_IOS\<close> is defined, 64 elsewhere.
\<close>
theorem C9_max_tessellation_factor:
  assumes vs: "vertexShader desc = Some vs"
    and n: "0 < GetNumPatchControlPoints vs"
    and rp: "renderPass desc = Some rp \<or> renderPass desc = None \<and> defaultRenderPass = Some rp"
  shows
    "(\<exists>rest. device_calls (snd (MTGraphicsPSO_ctor env device desc defaultRenderPass st)) =
        device_calls st @
        NewRenderPipelineState
          (FillRenderPipelineDescriptor env desc vs rp (GetNumPatchControlPoints vs)) # rest) \<and>
     map_option unat
       (maxTessellationFactor
          (FillRenderPipelineDescriptor env desc vs rp (GetNumPatchControlPoints vs))) =
       Some (min (unat (maxTessFactor (tessellation desc))) (if LLGL_OS_IOS env then 16 else 64))"
proof
  from rp have res:
    "(case renderPass desc of Some rp \<Rightarrow> Some rp | None \<Rightarrow> defaultRenderPass) = Some rp"
    by auto
  show "\<exists>rest. device_calls (snd (MTGraphicsPSO_ctor env device desc defaultRenderPass st)) =
        device_calls st @
        NewRenderPipelineState
          (FillRenderPipelineDescriptor env desc vs rp (GetNumPatchControlPoints vs)) # rest"
    by (simp add: ctor_calls CreateRenderPipelineState_calls [OF vs res]
          device_calls_ConvertStandaloneParameters)
  show "map_option unat
       (maxTessellationFactor
          (FillRenderPipelineDescriptor env desc vs rp (GetNumPatchControlPoints vs))) =
       Some (min (unat (maxTessFactor (tessellation desc))) (if LLGL_OS_IOS env then 16 else 64))"
    using n by (simp add: maxTessellationFactor_Fill unat_ucast_min_32_64)
qed

theorem C9_max_tessellation_factor_witness:
  "vertexShader (sample_desc\<lparr>vertexShader := Some (sample_shader 3)\<rparr>) = Some (sample_shader 3) \<and>
   0 < GetNumPatchControlPoints (sample_shader 3) \<and>
   renderPass (sample_desc\<lparr>vertexShader := Some (sample_shader 3)\<rparr>) = Some sample_renderPass \<and>
   maxTessFactor (tessellation (sample_desc\<lparr>vertexShader := Some (sample_shader 3)\<rparr>)) = 100 \<and>
   map_option unat
     (maxTessellationFactor
        (FillRenderPipelineDescriptor sample_env
           (sample_desc\<lparr>vertexShader := Some (sample_shader 3)\<rparr>) (sample_shader 3)
           sample_renderPass 3)) = Some 64 \<and>
   map_option unat
     (maxTessellationFactor
        (FillRenderPipelineDescriptor (sample_env\<lparr>LLGL_OS_IOS := True\<rparr>)
           (sample_desc\<lparr>vertexShader := Some (sample_shader 3)\<rparr>) (sample_shader 3)
           sample_renderPass 3)) = Some 16"
proof -
  let ?desc = "sample_desc\<lparr>vertexShader := Some (sample_shader 3)\<rparr>"
  have vs: "vertexShader ?desc = Some (sample_shader 3)"
    and n: "0 < GetNumPatchControlPoints (sample_shader 3)"
    and n3: "GetNumPatchControlPoints (sample_shader 3) = 3"
    and rp: "renderPass ?desc = Some sample_renderPass \<or>
             renderPass ?desc = None \<and> None = Some sample_renderPass"
    and rp': "renderPass sample_desc = Some sample_renderPass"
    and f: "maxTessFactor (tessellation sample_desc) = 100"
    and ios: "\<not> LLGL_OS_IOS sample_env"
    by (simp_all add: sample_desc_def sample_shader_def sample_env_def)
  show ?thesis
    using C9_max_tessellation_factor [OF vs n rp, of sample_env sample_device fresh_state]
      C9_max_tessellation_factor [OF vs n rp, of "sample_env\<lparr>LLGL_OS_IOS := True\<rparr>"
        sample_device fresh_state]
    by (simp add: n3 rp' f ios)
qed



subsection \<open>Tessellation is gated by the patch control point count\<close>

















subsection \<open>At most eight colour attachments\<close>

lemma FillRenderPipelineDescriptor_renderPass:
  "FillRenderPipelineDescriptor env (desc\<lparr>renderPass := x\<rparr>) vs rp npc =
   FillRenderPipelineDescriptor env desc vs rp npc"
  by (simp add: FillRenderPipelineDescriptor_def Let_def GetNativeMTShader_def)

lemma CreateRenderPipelineState_first_8:
  "CreateRenderPipelineState env device
     (desc\<lparr>renderPass :=
        map_option (\<lambda>p. p\<lparr>GetColorAttachments := take 8 (GetColorAttachments p)\<rparr>)
          (renderPass desc)\<rparr>)
     (map_option (\<lambda>p. p\<lparr>GetColorAttachments := take 8 (GetColorAttachments p)\<rparr>) dflt) st =
   CreateRenderPipelineState env device desc dflt st"
proof (cases "renderPass desc")
  case None
  show ?thesis
  proof (cases dflt)
    case None
    with \<open>renderPass desc = None\<close> show ?thesis
      by (simp add: CreateRenderPipelineState_def Let_def split: option.splits)
  next
    case (Some p)
    with \<open>renderPass desc = None\<close> show ?thesis
      by (simp add: CreateRenderPipelineState_def Let_def FillRenderPipelineDescriptor_renderPass
            FillRenderPipelineDescriptor_take split: option.splits sum.splits)
  qed
next
  case (Some p)
  then show ?thesis
    by (simp add: CreateRenderPipelineState_def Let_def FillRenderPipelineDescriptor_renderPass
          FillRenderPipelineDescriptor_take split: option.splits sum.splits)
qed

lemma ctor_first_8:
  "MTGraphicsPSO_ctor env device
     (desc\<lparr>renderPass :=
        map_option (\<lambda>p. p\<lparr>GetColorAttachments := take 8 (GetColorAttachments p)\<rparr>)
          (renderPass desc)\<rparr>)
     (map_option (\<lambda>p. p\<lparr>GetColorAttachments := take 8 (GetColorAttachments p)\<rparr>) dflt) st =
   MTGraphicsPSO_ctor env device desc dflt st"
proof -
  have c: "\<And>x. ConvertStandaloneParameters env (desc\<lparr>renderPass := x\<rparr>) st =
           ConvertStandaloneParameters env desc st"
    by (simp add: ConvertStandaloneParameters_def)
  have d: "\<And>x s. CreateDepthStencilState env device (desc\<lparr>renderPass := x\<rparr>) s =
           CreateDepthStencilState env device desc s"
    by (simp add: CreateDepthStencilState_def FillDepthStencilDescriptor_def)
  show ?thesis
    by (simp add: MTGraphicsPSO_ctor_def c d CreateRenderPipelineState_first_8
          split: prod.splits option.splits)
qed

text \<open>
  C1. With a vertex shader and a render pass at hand, the render pipeline descriptor
  handed to the device has a colour attachment descriptor at index \<open>i\<close> exactly for
  \<open>i < min n 8\<close>, \<open>n\<close> being the number of colour attachments of the render pass, each
  with the pixel format of attachment \<open>i\<close>. The attachments from index 8 on are not
  looked at and make no difference to success or failure: the constructor returns the
  same result, object and device calls for the render pass cut down to its first eight
  colour attachments.
\<close>
theorem C1_color_attachment_truncation:
  assumes vs: "vertexShader desc = Some vs"
    and rp: "renderPass desc = Some rp \<or> renderPass desc = None \<and> defaultRenderPass = Some rp"
  shows
    "(\<exists>rest. device_calls (snd (MTGraphicsPSO_ctor env device desc defaultRenderPass st)) =
        device_calls st @
        NewRenderPipelineState
          (FillRenderPipelineDescriptor env desc vs rp (GetNumPatchControlPoints vs)) # rest) \<and>
     dom (colorAttachments
            (FillRenderPipelineDescriptor env desc vs rp (GetNumPatchControlPoints vs))) =
       {i. i < min (length (GetColorAttachments rp)) 8} \<and>
     (\<forall>i. i < min (length (GetColorAttachments rp)) 8 \<longrightarrow>
        map_option ca_pixelFormat
          (colorAttachments
             (FillRenderPipelineDescriptor env desc vs rp (GetNumPatchControlPoints vs)) i) =
          Some (pixelFormat (GetColorAttachments rp ! i))) \<and>
     MTGraphicsPSO_ctor env device
       (desc\<lparr>renderPass :=
          map_option (\<lambda>p. p\<lparr>GetColorAttachments := take 8 (GetColorAttachments p)\<rparr>)
            (renderPass desc)\<rparr>)
       (map_option (\<lambda>p. p\<lparr>GetColorAttachments := take 8 (GetColorAttachments p)\<rparr>)
          defaultRenderPass) st =
       MTGraphicsPSO_ctor env device desc defaultRenderPass st"
proof (intro conjI allI impI)
  from rp have res:
    "(case renderPass desc of Some rp \<Rightarrow> Some rp | None \<Rightarrow> defaultRenderPass) = Some rp"
    by auto
  show "\<exists>rest. device_calls (snd (MTGraphicsPSO_ctor env device desc defaultRenderPass st)) =
        device_calls st @
        NewRenderPipelineState
          (FillRenderPipelineDescriptor env desc vs rp (GetNumPatchControlPoints vs)) # rest"
    by (simp add: ctor_calls CreateRenderPipelineState_calls [OF vs res]
          device_calls_ConvertStandaloneParameters)
next
  show "dom (colorAttachments
            (FillRenderPipelineDescriptor env desc vs rp (GetNumPatchControlPoints vs))) =
       {i. i < min (length (GetColorAttachments rp)) 8}"
    by (simp only: colorAttachments_FillRenderPipelineDescriptor FillColorAttachments_dom)
next
  fix i
  assume "i < min (length (GetColorAttachments rp)) 8"
  then show "map_option ca_pixelFormat
          (colorAttachments
             (FillRenderPipelineDescriptor env desc vs rp (GetNumPatchControlPoints vs)) i) =
          Some (pixelFormat (GetColorAttachments rp ! i))"
    by (simp add: colorAttachments_FillRenderPipelineDescriptor FillColorAttachments_apply
          FillColorAttachmentDesc_def)
next
  show "MTGraphicsPSO_ctor env device
       (desc\<lparr>renderPass :=
          map_option (\<lambda>p. p\<lparr>GetColorAttachments := take 8 (GetColorAttachments p)\<rparr>)
            (renderPass desc)\<rparr>)
       (map_option (\<lambda>p. p\<lparr>GetColorAttachments := take 8 (GetColorAttachments p)\<rparr>)
          defaultRenderPass) st =
       MTGraphicsPSO_ctor env device desc defaultRenderPass st"
    by (rule ctor_first_8)
qed

theorem C1_color_attachment_truncation_witness:
  "vertexShader sample_desc = Some (sample_shader 0) \<and>
   renderPass sample_desc = Some sample_renderPass \<and>
   length (GetColorAttachments sample_renderPass) = 9 \<and>
   dom (colorAttachments
          (FillRenderPipelineDescriptor sample_env sample_desc (sample_shader 0)
             sample_renderPass 0)) = {i. i < 8} \<and>
   map_option ca_pixelFormat
     (colorAttachments
        (FillRenderPipelineDescriptor sample_env sample_desc (sample_shader 0)
           sample_renderPass 0) 7) = Some 77 \<and>
   colorAttachments
     (FillRenderPipelineDescriptor sample_env sample_desc (sample_shader 0)
        sample_renderPass 0) 8 = None \<and>
   fst (MTGraphicsPSO_ctor sample_env sample_device sample_desc None fresh_state) = None \<and>
   MTGraphicsPSO_ctor sample_env sample_device
     (sample_desc\<lparr>renderPass :=
        Some (sample_renderPass\<lparr>GetColorAttachments :=
                take 8 (GetColorAttachments sample_renderPass)\<rparr>)\<rparr>) None fresh_state =
     MTGraphicsPSO_ctor sample_env sample_device sample_desc None fresh_state"
proof -
  let ?psoDesc = "FillRenderPipelineDescriptor sample_env sample_desc (sample_shader 0)
                    sample_renderPass 0"
  have vs: "vertexShader sample_desc = Some (sample_shader 0)"
    and rp: "renderPass sample_desc = Some sample_renderPass"
    and n0: "GetNumPatchControlPoints (sample_shader 0) = 0"
    and len: "length (GetColorAttachments sample_renderPass) = 9"
    and p7: "pixelFormat (GetColorAttachments sample_renderPass ! 7) = 77"
    and dev: "\<And>psoDesc. newRenderPipelineStateWithDescriptor sample_device psoDesc = Inr 1"
    by (simp_all add: sample_desc_def sample_shader_def sample_renderPass_def sample_device_def)
  have res: "(case renderPass sample_desc of Some rp \<Rightarrow> Some rp | None \<Rightarrow> None) =
               Some sample_renderPass"
    by (simp add: rp)
  note inst = C1_color_attachment_truncation [where desc = sample_desc and vs = "sample_shader 0"
      and rp = sample_renderPass and defaultRenderPass = None and env = sample_env
      and device = sample_device and st = fresh_state]
  from inst have d: "dom (colorAttachments ?psoDesc) = {i. i < 8}"
    by (simp add: vs rp n0 len)
  from inst have "\<forall>i. i < 8 \<longrightarrow>
      map_option ca_pixelFormat (colorAttachments ?psoDesc i) =
        Some (pixelFormat (GetColorAttachments sample_renderPass ! i))"
    by (simp add: vs rp n0 len)
  then have "(7::nat) < 8 \<longrightarrow>
      map_option ca_pixelFormat (colorAttachments ?psoDesc 7) =
        Some (pixelFormat (GetColorAttachments sample_renderPass ! 7))"
    by (rule spec)
  then have a7: "map_option ca_pixelFormat (colorAttachments ?psoDesc 7) = Some 77"
    by (simp add: p7)
  from d have a8: "colorAttachments ?psoDesc 8 = None"
    by (auto simp add: dom_def)
  from inst have t: "MTGraphicsPSO_ctor sample_env sample_device
     (sample_desc\<lparr>renderPass :=
        Some (sample_renderPass\<lparr>GetColorAttachments :=
                take 8 (GetColorAttachments sample_renderPass)\<rparr>)\<rparr>) None fresh_state =
     MTGraphicsPSO_ctor sample_env sample_device sample_desc None fresh_state"
    by (simp add: vs rp)
  have ok: "fst (MTGraphicsPSO_ctor sample_env sample_device sample_desc None fresh_state) = None"
    by (simp add: ctor_fst CreateRenderPipelineState_fst [OF vs res] n0 dev)
  from vs rp len d a7 a8 ok t show ?thesis
    by blast
qed

subsection \<open>Shared or independent blend targets\<close>

text \<open>
  C2. Colour attachment \<open>i\<close> of the render pipeline descriptor handed to the device
  takes its blend enable flag, its write mask and its six blend factors and operations
  from \<^verbatim>\<open>blend.targets[0]\<close> when \<^verbatim>\<open>independentBlendEnabled\<close> is false, whatever
  \<^verbatim>\<open>blend.targets[i]\<close> holds, and from \<^verbatim>\<open>blend.targets[i]\<close> when it is true. The
  entry read has to be there.
\<close>
theorem C2_blend_target_selection:
  assumes vs: "vertexShader desc = Some vs"
    and rp: "renderPass desc = Some rp \<or> renderPass desc = None \<and> defaultRenderPass = Some rp"
    and i: "i < min (length (GetColorAttachments rp)) 8"
    and k: "(if independentBlendEnabled (blend desc) then i else 0) < length (targets (blend desc))"
  shows
    "(\<exists>rest. device_calls (snd (MTGraphicsPSO_ctor env device desc defaultRenderPass st)) =
        device_calls st @
        NewRenderPipelineState
          (FillRenderPipelineDescriptor env desc vs rp (GetNumPatchControlPoints vs)) # rest) \<and>
     (let targetDesc = targets (blend desc) !
                         (if independentBlendEnabled (blend desc) then i else 0)
      in colorAttachments
           (FillRenderPipelineDescriptor env desc vs rp (GetNumPatchControlPoints vs)) i =
         Some \<lparr> ca_pixelFormat = pixelFormat (GetColorAttachments rp ! i),
                ca_writeMask = ToMTLColorWriteMask (colorMask targetDesc),
                blendingEnabled = blendEnabled targetDesc,
                alphaBlendOperation = ToMTLBlendOperation env (alphaArithmetic targetDesc),
                rgbBlendOperation = ToMTLBlendOperation env (colorArithmetic targetDesc),
                destinationAlphaBlendFactor = ToMTLBlendFactor env (dstAlpha targetDesc),
                destinationRGBBlendFactor = ToMTLBlendFactor env (dstColor targetDesc),
                sourceAlphaBlendFactor = ToMTLBlendFactor env (srcAlpha targetDesc),
                sourceRGBBlendFactor = ToMTLBlendFactor env (srcColor targetDesc) \<rparr>)"
proof
  from rp have res:
    "(case renderPass desc of Some rp \<Rightarrow> Some rp | None \<Rightarrow> defaultRenderPass) = Some rp"
    by auto
  show "\<exists>rest. device_calls (snd (MTGraphicsPSO_ctor env device desc defaultRenderPass st)) =
        device_calls st @
        NewRenderPipelineState
          (FillRenderPipelineDescriptor env desc vs rp (GetNumPatchControlPoints vs)) # rest"
    by (simp add: ctor_calls CreateRenderPipelineState_calls [OF vs res]
          device_calls_ConvertStandaloneParameters)
  show "let targetDesc = targets (blend desc) !
                         (if independentBlendEnabled (blend desc) then i else 0)
      in colorAttachments
           (FillRenderPipelineDescriptor env desc vs rp (GetNumPatchControlPoints vs)) i =
         Some \<lparr> ca_pixelFormat = pixelFormat (GetColorAttachments rp ! i),
                ca_writeMask = ToMTLColorWriteMask (colorMask targetDesc),
                blendingEnabled = blendEnabled targetDesc,
                alphaBlendOperation = ToMTLBlendOperation env (alphaArithmetic targetDesc),
                rgbBlendOperation = ToMTLBlendOperation env (colorArithmetic targetDesc),
                destinationAlphaBlendFactor = ToMTLBlendFactor env (dstAlpha targetDesc),
                destinationRGBBlendFactor = ToMTLBlendFactor env (dstColor targetDesc),
                sourceAlphaBlendFactor = ToMTLBlendFactor env (srcAlpha targetDesc),
                sourceRGBBlendFactor = ToMTLBlendFactor env (srcColor targetDesc) \<rparr>"
    using i
    by (simp add: colorAttachments_FillRenderPipelineDescriptor FillColorAttachments_apply
          FillColorAttachmentDesc_def Let_def)
qed


theorem C2_blend_target_selection_witness:
  "independentBlendEnabled (blend sample_desc) = False \<and>
   length (targets (blend sample_desc)) = 8 \<and>
   sample_target 3 \<noteq> sample_target 0 \<and>
   colorAttachments
     (FillRenderPipelineDescriptor sample_env sample_desc (sample_shader 0)
        sample_renderPass 0) 3 =
     Some \<lparr> ca_pixelFormat = 73, ca_writeMask = 14, blendingEnabled = True,
            alphaBlendOperation = 1, rgbBlendOperation = 0,
            destinationAlphaBlendFactor = 3, destinationRGBBlendFactor = 1,
            sourceAlphaBlendFactor = 2, sourceRGBBlendFactor = 0 \<rparr> \<and>
   colorAttachments
     (FillRenderPipelineDescriptor sample_env
        (sample_desc\<lparr>blend := (blend sample_desc)\<lparr>independentBlendEnabled := True\<rparr>\<rparr>)
        (sample_shader 0) sample_renderPass 0) 3 =
     Some \<lparr> ca_pixelFormat = 73, ca_writeMask = 12, blendingEnabled = False,
            alphaBlendOperation = 1, rgbBlendOperation = 0,
            destinationAlphaBlendFactor = 6, destinationRGBBlendFactor = 4,
            sourceAlphaBlendFactor = 5, sourceRGBBlendFactor = 3 \<rparr>"
proof -
  let ?desc' = "sample_desc\<lparr>blend := (blend sample_desc)\<lparr>independentBlendEnabled := True\<rparr>\<rparr>"
  have vs: "vertexShader sample_desc = Some (sample_shader 0)"
    and rp: "renderPass sample_desc = Some sample_renderPass \<or>
             renderPass sample_desc = None \<and> None = Some sample_renderPass"
    and vs': "vertexShader ?desc' = Some (sample_shader 0)"
    and rp': "renderPass ?desc' = Some sample_renderPass \<or>
             renderPass ?desc' = None \<and> None = Some sample_renderPass"
    and n0: "GetNumPatchControlPoints (sample_shader 0) = 0"
    and i: "3 < min (length (GetColorAttachments sample_renderPass)) 8"
    and p3: "pixelFormat (GetColorAttachments sample_renderPass ! 3) = 73"
    and ind: "independentBlendEnabled (blend sample_desc) = False"
    and len: "length (targets (blend sample_desc)) = 8"
    and t0: "targets (blend sample_desc) ! 0 = sample_target 0"
    and t3: "targets (blend sample_desc) ! 3 = sample_target 3"
    by (simp_all add: sample_desc_def sample_shader_def sample_renderPass_def)
  have k: "(if independentBlendEnabled (blend sample_desc) then 3 else 0) <
             length (targets (blend sample_desc))"
    and k': "(if independentBlendEnabled (blend ?desc') then 3 else 0) <
             length (targets (blend ?desc'))"
    by (simp_all add: ind len)
  have m0: "ToMTLColorWriteMask (colorMask (sample_target 0)) = 14"
    and m3: "ToMTLColorWriteMask (colorMask (sample_target 3)) = 12"
    by (simp_all add: ToMTLColorWriteMask_def sample_target_def MTLColorWriteMaskNone_def
          MTLColorWriteMaskRed_def MTLColorWriteMaskGreen_def MTLColorWriteMaskBlue_def
          MTLColorWriteMaskAlpha_def)
  have conv: "ToMTLBlendOperation sample_env = nat" "ToMTLBlendFactor sample_env = nat"
    by (simp_all add: sample_env_def)
  have ne: "sample_target 3 \<noteq> sample_target 0"
    by (simp add: sample_target_def)
  have a: "colorAttachments
     (FillRenderPipelineDescriptor sample_env sample_desc (sample_shader 0)
        sample_renderPass 0) 3 =
     Some \<lparr> ca_pixelFormat = 73, ca_writeMask = 14, blendingEnabled = True,
            alphaBlendOperation = 1, rgbBlendOperation = 0,
            destinationAlphaBlendFactor = 3, destinationRGBBlendFactor = 1,
            sourceAlphaBlendFactor = 2, sourceRGBBlendFactor = 0 \<rparr>"
    using C2_blend_target_selection [OF vs rp i k, of sample_env sample_device fresh_state]
    by (simp add: n0 p3 ind t0 m0 conv) (simp add: sample_target_def)
  have b: "colorAttachments
     (FillRenderPipelineDescriptor sample_env ?desc' (sample_shader 0) sample_renderPass 0) 3 =
     Some \<lparr> ca_pixelFormat = 73, ca_writeMask = 12, blendingEnabled = False,
            alphaBlendOperation = 1, rgbBlendOperation = 0,
            destinationAlphaBlendFactor = 6, destinationRGBBlendFactor = 4,
            sourceAlphaBlendFactor = 5, sourceRGBBlendFactor = 3 \<rparr>"
    using C2_blend_target_selection [OF vs' rp' i k', of sample_env sample_device fresh_state]
    by (simp add: n0 p3 t3 m3 conv) (simp add: sample_target_def)
  from ind len ne a b show ?thesis
    by blast
qed



subsection \<open>The default stencil state\<close>

lemma FillRenderPipelineDescriptor_stencil:
  "FillRenderPipelineDescriptor env (desc\<lparr>stencil := x\<rparr>) vs rp npc =
   FillRenderPipelineDescriptor env desc vs rp npc"
  by (simp add: FillRenderPipelineDescriptor_def Let_def GetNativeMTShader_def)

lemma CreateRenderPipelineState_stencil:
  "CreateRenderPipelineState env device (desc\<lparr>stencil := x\<rparr>) dflt st =
   CreateRenderPipelineState env device desc dflt st"
  by (simp add: CreateRenderPipelineState_def Let_def FillRenderPipelineDescriptor_stencil
        split: option.splits sum.splits)

lemma ConvertStandaloneParameters_stencil:
  "ConvertStandaloneParameters env (desc\<lparr>stencil := x\<rparr>) st =
   ConvertStandaloneParameters env desc st"
  by (simp add: ConvertStandaloneParameters_def)

lemma FillDepthStencilDescriptor_default:
  assumes "\<not> testEnabled (stencil desc)"
    and "ToMTLStencilOperation env keep = MTLStencilOperationKeep"
    and "ToMTLCompareFunction env always_pass = MTLCompareFunctionAlways"
  shows "FillDepthStencilDescriptor env
       (desc\<lparr>stencil := (stencil desc)
          \<lparr>testEnabled := True,
           stencil_front := (stencil_front (stencil desc))
             \<lparr>stencilFailOp := keep, depthFailOp := keep, depthPassOp := keep,
              compareOp := always_pass, readMask := 0, writeMask := 0\<rparr>,
           stencil_back := (stencil_back (stencil desc))
             \<lparr>stencilFailOp := keep, depthFailOp := keep, depthPassOp := keep,
              compareOp := always_pass, readMask := 0, writeMask := 0\<rparr>\<rparr>\<rparr>) =
     FillDepthStencilDescriptor env desc"
  using assms
  by (simp add: FillDepthStencilDescriptor_def Convert_def FillDefaultMTStencilDesc_def)

lemma CreateDepthStencilState_default:
  assumes "\<not> testEnabled (stencil desc)"
    and "ToMTLStencilOperation env keep = MTLStencilOperationKeep"
    and "ToMTLCompareFunction env always_pass = MTLCompareFunctionAlways"
  shows "CreateDepthStencilState env device
       (desc\<lparr>stencil := (stencil desc)
          \<lparr>testEnabled := True,
           stencil_front := (stencil_front (stencil desc))
             \<lparr>stencilFailOp := keep, depthFailOp := keep, depthPassOp := keep,
              compareOp := always_pass, readMask := 0, writeMask := 0\<rparr>,
           stencil_back := (stencil_back (stencil desc))
             \<lparr>stencilFailOp := keep, depthFailOp := keep, depthPassOp := keep,
              compareOp := always_pass, readMask := 0, writeMask := 0\<rparr>\<rparr>\<rparr>) s =
     CreateDepthStencilState env device desc s"
  unfolding CreateDepthStencilState_def FillDepthStencilDescriptor_default [OF assms]
  by simp

text \<open>
  C6. With the stencil test disabled, both faces of the native depth-stencil descriptor
  are keep, keep, keep, always, with read and write mask 0. This descriptor is the one
  \<^verbatim>\<open>CreateDepthStencilState\<close> hands to the device, and the state the device returns
  for it is the one stored in the object: a constructor that succeeds has made that call
  last. The same descriptor, and
  with it the same object and the same device calls, come out of the descriptor that has
  the stencil test enabled and both faces set to those values and is otherwise the same;
  \<open>keep\<close> and \<open>always_pass\<close> are the values that \<^verbatim>\<open>MTTypes\<close> converts to
  \<^verbatim>\<open>MTLStencilOperationKeep\<close> and \<^verbatim>\<open>MTLCompareFunctionAlways\<close>.
\<close>
theorem C6_stencil_default:
  assumes off: "\<not> testEnabled (stencil desc)"
    and keep: "ToMTLStencilOperation env keep = MTLStencilOperationKeep"
    and always: "ToMTLCompareFunction env always_pass = MTLCompareFunctionAlways"
  shows
    "frontFaceStencil (FillDepthStencilDescriptor env desc) =
       \<lparr> stencilFailureOperation = MTLStencilOperationKeep,
         depthFailureOperation = MTLStencilOperationKeep,
         depthStencilPassOperation = MTLStencilOperationKeep,
         stencilCompareFunction = MTLCompareFunctionAlways,
         mtl_readMask = 0, mtl_writeMask = 0 \<rparr> \<and>
     backFaceStencil (FillDepthStencilDescriptor env desc) =
       \<lparr> stencilFailureOperation = MTLStencilOperationKeep,
         depthFailureOperation = MTLStencilOperationKeep,
         depthStencilPassOperation = MTLStencilOperationKeep,
         stencilCompareFunction = MTLCompareFunctionAlways,
         mtl_readMask = 0, mtl_writeMask = 0 \<rparr> \<and>
     MTGraphicsPSO_ctor env device
       (desc\<lparr>stencil := (stencil desc)
          \<lparr>testEnabled := True,
           stencil_front := (stencil_front (stencil desc))
             \<lparr>stencilFailOp := keep, depthFailOp := keep, depthPassOp := keep,
              compareOp := always_pass, readMask := 0, writeMask := 0\<rparr>,
           stencil_back := (stencil_back (stencil desc))
             \<lparr>stencilFailOp := keep, depthFailOp := keep, depthPassOp := keep,
              compareOp := always_pass, readMask := 0, writeMask := 0\<rparr>\<rparr>\<rparr>)
       defaultRenderPass st =
       MTGraphicsPSO_ctor env device desc defaultRenderPass st \<and>
     device_calls (CreateDepthStencilState env device desc st) =
       device_calls st @ [NewDepthStencilState (FillDepthStencilDescriptor env desc)] \<and>
     m_depthStencilState (this (CreateDepthStencilState env device desc st)) =
       newDepthStencilStateWithDescriptor device (FillDepthStencilDescriptor env desc) \<and>
     (fst (MTGraphicsPSO_ctor env device desc defaultRenderPass st) = None \<longrightarrow>
        last (device_calls (snd (MTGraphicsPSO_ctor env device desc defaultRenderPass st))) =
          NewDepthStencilState (FillDepthStencilDescriptor env desc) \<and>
        m_depthStencilState
          (this (snd (MTGraphicsPSO_ctor env device desc defaultRenderPass st))) =
          newDepthStencilStateWithDescriptor device (FillDepthStencilDescriptor env desc))"
proof (intro conjI impI)
  show "device_calls (CreateDepthStencilState env device desc st) =
       device_calls st @ [NewDepthStencilState (FillDepthStencilDescriptor env desc)]"
    by (simp add: CreateDepthStencilState_this)
  show "m_depthStencilState (this (CreateDepthStencilState env device desc st)) =
       newDepthStencilStateWithDescriptor device (FillDepthStencilDescriptor env desc)"
    by (simp add: CreateDepthStencilState_this)
next
  assume ok: "fst (MTGraphicsPSO_ctor env device desc defaultRenderPass st) = None"
  show "last (device_calls (snd (MTGraphicsPSO_ctor env device desc defaultRenderPass st))) =
          NewDepthStencilState (FillDepthStencilDescriptor env desc)"
    by (simp add: ctor_success_depth_stencil [OF ok] CreateDepthStencilState_this)
  show "m_depthStencilState
          (this (snd (MTGraphicsPSO_ctor env device desc defaultRenderPass st))) =
          newDepthStencilStateWithDescriptor device (FillDepthStencilDescriptor env desc)"
    by (simp add: ctor_success_depth_stencil [OF ok] CreateDepthStencilState_this)
next
  show "frontFaceStencil (FillDepthStencilDescriptor env desc) =
       \<lparr> stencilFailureOperation = MTLStencilOperationKeep,
         depthFailureOperation = MTLStencilOperationKeep,
         depthStencilPassOperation = MTLStencilOperationKeep,
         stencilCompareFunction = MTLCompareFunctionAlways,
         mtl_readMask = 0, mtl_writeMask = 0 \<rparr>"
    using off by (simp add: FillDepthStencilDescriptor_def FillDefaultMTStencilDesc_def)
  show "backFaceStencil (FillDepthStencilDescriptor env desc) =
       \<lparr> stencilFailureOperation = MTLStencilOperationKeep,
         depthFailureOperation = MTLStencilOperationKeep,
         depthStencilPassOperation = MTLStencilOperationKeep,
         stencilCompareFunction = MTLCompareFunctionAlways,
         mtl_readMask = 0, mtl_writeMask = 0 \<rparr>"
    using off by (simp add: FillDepthStencilDescriptor_def FillDefaultMTStencilDesc_def)
  show "MTGraphicsPSO_ctor env device
       (desc\<lparr>stencil := (stencil desc)
          \<lparr>testEnabled := True,
           stencil_front := (stencil_front (stencil desc))
             \<lparr>stencilFailOp := keep, depthFailOp := keep, depthPassOp := keep,
              compareOp := always_pass, readMask := 0, writeMask := 0\<rparr>,
           stencil_back := (stencil_back (stencil desc))
             \<lparr>stencilFailOp := keep, depthFailOp := keep, depthPassOp := keep,
              compareOp := always_pass, readMask := 0, writeMask := 0\<rparr>\<rparr>\<rparr>)
       defaultRenderPass st =
       MTGraphicsPSO_ctor env device desc defaultRenderPass st"
    unfolding MTGraphicsPSO_ctor_def CreateRenderPipelineState_stencil
      ConvertStandaloneParameters_stencil CreateDepthStencilState_default [OF off keep always]
    by (rule refl)
qed

theorem C6_stencil_default_witness:
  "\<not> testEnabled (stencil sample_desc) \<and>
   ToMTLStencilOperation sample_env 0 = MTLStencilOperationKeep \<and>
   ToMTLCompareFunction sample_env 7 = MTLCompareFunctionAlways \<and>
   stencilFailOp (stencil_front (stencil sample_desc)) \<noteq> 0 \<and>
   frontFaceStencil (FillDepthStencilDescriptor sample_env sample_desc) =
       \<lparr> stencilFailureOperation = MTLStencilOperationKeep,
         depthFailureOperation = MTLStencilOperationKeep,
         depthStencilPassOperation = MTLStencilOperationKeep,
         stencilCompareFunction = MTLCompareFunctionAlways,
         mtl_readMask = 0, mtl_writeMask = 0 \<rparr> \<and>
   backFaceStencil (FillDepthStencilDescriptor sample_env sample_desc) =
       \<lparr> stencilFailureOperation = MTLStencilOperationKeep,
         depthFailureOperation = MTLStencilOperationKeep,
         depthStencilPassOperation = MTLStencilOperationKeep,
         stencilCompareFunction = MTLCompareFunctionAlways,
         mtl_readMask = 0, mtl_writeMask = 0 \<rparr> \<and>
   MTGraphicsPSO_ctor sample_env sample_device
       (sample_desc\<lparr>stencil := (stencil sample_desc)
          \<lparr>testEnabled := True,
           stencil_front := (stencil_front (stencil sample_desc))
             \<lparr>stencilFailOp := 0, depthFailOp := 0, depthPassOp := 0,
              compareOp := 7, readMask := 0, writeMask := 0\<rparr>,
           stencil_back := (stencil_back (stencil sample_desc))
             \<lparr>stencilFailOp := 0, depthFailOp := 0, depthPassOp := 0,
              compareOp := 7, readMask := 0, writeMask := 0\<rparr>\<rparr>\<rparr>)
       None fresh_state =
       MTGraphicsPSO_ctor sample_env sample_device sample_desc None fresh_state \<and>
   fst (MTGraphicsPSO_ctor sample_env sample_device sample_desc None fresh_state) = None \<and>
   last (device_calls (snd (MTGraphicsPSO_ctor sample_env sample_device sample_desc None
                              fresh_state))) =
     NewDepthStencilState (FillDepthStencilDescriptor sample_env sample_desc) \<and>
   m_depthStencilState
     (this (snd (MTGraphicsPSO_ctor sample_env sample_device sample_desc None fresh_state))) =
     Some 3"
proof -
  have off: "\<not> testEnabled (stencil sample_desc)"
    and keep: "ToMTLStencilOperation sample_env 0 = MTLStencilOperationKeep"
    and always: "ToMTLCompareFunction sample_env 7 = MTLCompareFunctionAlways"
    and ne: "stencilFailOp (stencil_front (stencil sample_desc)) \<noteq> 0"
    and vs: "vertexShader sample_desc = Some (sample_shader 0)"
    and rp: "renderPass sample_desc = Some sample_renderPass"
    and dss: "\<And>d. newDepthStencilStateWithDescriptor sample_device d = Some 3"
    by (simp_all add: sample_desc_def sample_env_def sample_device_def)
  have ok: "fst (MTGraphicsPSO_ctor sample_env sample_device sample_desc None fresh_state) = None"
    by (rule ctor_sample_succeeds [OF vs rp])
  from off keep always ne ok
    C6_stencil_default [OF off keep always, of sample_device None fresh_state]
  show ?thesis
    by (simp add: dss)
qed



subsection \<open>Depth write and depth compare\<close>

lemma Bind_calls:
  "Bind env pso renderEncoder =
     renderEncoder @
     [setRenderPipelineState (m_renderPipelineState pso),
      setDepthStencilState (m_depthStencilState pso),
      setCullMode (m_cullMode pso),
      setFrontFacingWinding (m_winding pso),
      setTriangleFillMode (m_fillMode pso)] @
     (if available_macOS_10_11_iOS_11 env then [setDepthClipMode (m_clipMode pso)] else []) @
     (if LLGL_OS_IOS env then []
      else setDepthBias (m_depthBias pso) (m_depthSlope pso) (m_depthClamp pso) #
           (if m_stencilRefDynamic pso then []
            else if m_stencilFrontRef pso \<noteq> m_stencilBackRef pso
                 then [setStencilFrontReferenceValue_backReferenceValue
                         (m_stencilFrontRef pso) (m_stencilBackRef pso)]
                 else [setStencilReferenceValue (m_stencilFrontRef pso)])) @
     (if m_blendColorEnabled pso
      then [setBlendColor (fst (m_blendColor pso)) (fst (snd (m_blendColor pso)))
              (fst (snd (snd (m_blendColor pso)))) (snd (snd (snd (m_blendColor pso))))]
      else [])"
  by (cases "m_blendColor pso") (simp add: Bind_def Let_def)

text \<open>
  C7. With \<^verbatim>\<open>MTBoolean\<close> turning a \<^verbatim>\<open>bool\<close> into the \<^verbatim>\<open>BOOL\<close> of the same truth
  value, the native depth-stencil descriptor takes its write flag from
  \<^verbatim>\<open>depth.writeEnabled\<close> whatever \<^verbatim>\<open>depth.testEnabled\<close> is, and its compare function from
  \<^verbatim>\<open>depth.compareOp\<close> when the depth test is enabled and is always-pass when it is not.
  So a disabled test with writes enabled gives a state that writes depth and always
  passes. A constructor that succeeds has created the depth-stencil state from this
  descriptor as its last device call and stored it, and \<^verbatim>\<open>Bind\<close> sets the stored
  state on the encoder.
\<close>
theorem C7_depth_write_and_compare:
  assumes yes_no: "MTBoolean env = (\<lambda>v. v)"
  shows
  "depthWriteEnabled (FillDepthStencilDescriptor env desc) = depth_writeEnabled (depth desc) \<and>
   depthCompareFunction (FillDepthStencilDescriptor env desc) =
     (if depth_testEnabled (depth desc)
      then ToMTLCompareFunction env (depth_compareOp (depth desc))
      else MTLCompareFunctionAlways) \<and>
   (\<not> depth_testEnabled (depth desc) \<and> depth_writeEnabled (depth desc) \<longrightarrow>
      depthWriteEnabled (FillDepthStencilDescriptor env desc) \<and>
      depthCompareFunction (FillDepthStencilDescriptor env desc) = MTLCompareFunctionAlways) \<and>
   (fst (MTGraphicsPSO_ctor env device desc defaultRenderPass st) = None \<longrightarrow>
      last (device_calls (snd (MTGraphicsPSO_ctor env device desc defaultRenderPass st))) =
        NewDepthStencilState (FillDepthStencilDescriptor env desc) \<and>
      m_depthStencilState (this (snd (MTGraphicsPSO_ctor env device desc defaultRenderPass st))) =
        newDepthStencilStateWithDescriptor device (FillDepthStencilDescriptor env desc)) \<and>
   setDepthStencilState (m_depthStencilState pso) \<in> set (Bind env pso renderEncoder)"
proof (intro conjI impI)
  show "depthWriteEnabled (FillDepthStencilDescriptor env desc) = depth_writeEnabled (depth desc)"
    by (simp add: FillDepthStencilDescriptor_def yes_no)
  show "depthCompareFunction (FillDepthStencilDescriptor env desc) =
     (if depth_testEnabled (depth desc)
      then ToMTLCompareFunction env (depth_compareOp (depth desc))
      else MTLCompareFunctionAlways)"
    by (simp add: FillDepthStencilDescriptor_def)
  show "setDepthStencilState (m_depthStencilState pso) \<in> set (Bind env pso renderEncoder)"
    by (simp add: Bind_calls)
next
  assume "\<not> depth_testEnabled (depth desc) \<and> depth_writeEnabled (depth desc)"
  then show "depthWriteEnabled (FillDepthStencilDescriptor env desc)"
    and "depthCompareFunction (FillDepthStencilDescriptor env desc) = MTLCompareFunctionAlways"
    by (simp_all add: FillDepthStencilDescriptor_def yes_no)
next
  assume ok: "fst (MTGraphicsPSO_ctor env device desc defaultRenderPass st) = None"
  show "last (device_calls (snd (MTGraphicsPSO_ctor env device desc defaultRenderPass st))) =
        NewDepthStencilState (FillDepthStencilDescriptor env desc)"
    by (simp add: ctor_success_depth_stencil [OF ok] CreateDepthStencilState_this)
  show "m_depthStencilState (this (snd (MTGraphicsPSO_ctor env device desc defaultRenderPass st))) =
        newDepthStencilStateWithDescriptor device (FillDepthStencilDescriptor env desc)"
    by (simp add: ctor_success_depth_stencil [OF ok] CreateDepthStencilState_this)
qed

theorem C7_depth_write_and_compare_witness:
  "MTBoolean sample_env = (\<lambda>v. v) \<and>
   \<not> depth_testEnabled (depth sample_desc) \<and> depth_writeEnabled (depth sample_desc) \<and>
   ToMTLCompareFunction sample_env (depth_compareOp (depth sample_desc)) = MTLCompareFunctionLess \<and>
   depthWriteEnabled (FillDepthStencilDescriptor sample_env sample_desc) \<and>
   depthCompareFunction (FillDepthStencilDescriptor sample_env sample_desc) =
     MTLCompareFunctionAlways \<and>
   fst (MTGraphicsPSO_ctor sample_env sample_device sample_desc None fresh_state) = None \<and>
   last (device_calls (snd (MTGraphicsPSO_ctor sample_env sample_device sample_desc None
                              fresh_state))) =
     NewDepthStencilState (FillDepthStencilDescriptor sample_env sample_desc) \<and>
   m_depthStencilState (this (snd (MTGraphicsPSO_ctor sample_env sample_device sample_desc None
                                     fresh_state))) = Some 3"
proof -
  have vs: "vertexShader sample_desc = Some (sample_shader 0)"
    and res: "(case renderPass sample_desc of Some rp \<Rightarrow> Some rp | None \<Rightarrow> None) =
               Some sample_renderPass"
    and n0: "GetNumPatchControlPoints (sample_shader 0) = 0"
    and dev: "\<And>psoDesc. newRenderPipelineStateWithDescriptor sample_device psoDesc = Inr 1"
    and dss: "\<And>d. newDepthStencilStateWithDescriptor sample_device d = Some 3"
    and off: "\<not> depth_testEnabled (depth sample_desc)"
    and wr: "depth_writeEnabled (depth sample_desc)"
    and less: "ToMTLCompareFunction sample_env (depth_compareOp (depth sample_desc)) =
                 MTLCompareFunctionLess"
    and yes_no: "MTBoolean sample_env = (\<lambda>v. v)"
    by (simp_all add: sample_desc_def sample_shader_def sample_device_def sample_env_def)
  have ok: "fst (MTGraphicsPSO_ctor sample_env sample_device sample_desc None fresh_state) = None"
    by (simp add: ctor_fst CreateRenderPipelineState_fst [OF vs res] n0 dev)
  show ?thesis
    using C7_depth_write_and_compare [OF yes_no, of sample_desc sample_device None fresh_state]
    by (simp add: off wr less ok dss yes_no)
qed


subsection \<open>The stencil reference at bind time\<close>

lemma ctor_snapshot:
  assumes "fst (MTGraphicsPSO_ctor env device desc dflt st) = None"
  shows "m_stencilFrontRef (this (snd (MTGraphicsPSO_ctor env device desc dflt st))) =
           reference (stencil_front (stencil desc)) \<and>
         m_stencilBackRef (this (snd (MTGraphicsPSO_ctor env device desc dflt st))) =
           reference (stencil_back (stencil desc)) \<and>
         m_stencilRefDynamic (this (snd (MTGraphicsPSO_ctor env device desc dflt st))) =
           referenceDynamic (stencil desc)"
  by (simp add: ctor_success_depth_stencil [OF assms] CreateDepthStencilState_this)

text \<open>
  What \<^verbatim>\<open>Bind\<close> does where \<^verbatim>\<open>LLGL_OS_IOS\<close> is not defined: with a stencil reference
  that is not dynamic it adds exactly one stencil reference call to the encoder, the
  single-value call when front and back reference are equal and the paired call when
  they differ. When the stencil reference is dynamic, \<^verbatim>\<open>Bind\<close> adds no stencil
  reference call, on any platform. The references and the flag of a constructed object
  are those of the descriptor.
\<close>
lemma Bind_stencil_reference:
  "(\<not> LLGL_OS_IOS env \<and> \<not> m_stencilRefDynamic pso \<longrightarrow>
      filter is_stencil_reference_call (Bind env pso renderEncoder) =
        filter is_stencil_reference_call renderEncoder @
        [if m_stencilFrontRef pso = m_stencilBackRef pso
         then setStencilReferenceValue (m_stencilFrontRef pso)
         else setStencilFrontReferenceValue_backReferenceValue
                (m_stencilFrontRef pso) (m_stencilBackRef pso)]) \<and>
   (m_stencilRefDynamic pso \<longrightarrow>
      filter is_stencil_reference_call (Bind env pso renderEncoder) =
        filter is_stencil_reference_call renderEncoder) \<and>
   (fst (MTGraphicsPSO_ctor env device desc defaultRenderPass st) = None \<longrightarrow>
      m_stencilFrontRef (this (snd (MTGraphicsPSO_ctor env device desc defaultRenderPass st))) =
        reference (stencil_front (stencil desc)) \<and>
      m_stencilBackRef (this (snd (MTGraphicsPSO_ctor env device desc defaultRenderPass st))) =
        reference (stencil_back (stencil desc)) \<and>
      m_stencilRefDynamic (this (snd (MTGraphicsPSO_ctor env device desc defaultRenderPass st))) =
        referenceDynamic (stencil desc))"
proof (intro conjI impI)
  assume "\<not> LLGL_OS_IOS env \<and> \<not> m_stencilRefDynamic pso"
  then show "filter is_stencil_reference_call (Bind env pso renderEncoder) =
        filter is_stencil_reference_call renderEncoder @
        [if m_stencilFrontRef pso = m_stencilBackRef pso
         then setStencilReferenceValue (m_stencilFrontRef pso)
         else setStencilFrontReferenceValue_backReferenceValue
                (m_stencilFrontRef pso) (m_stencilBackRef pso)]"
    by (simp add: Bind_calls)
next
  assume "m_stencilRefDynamic pso"
  then show "filter is_stencil_reference_call (Bind env pso renderEncoder) =
        filter is_stencil_reference_call renderEncoder"
    by (simp add: Bind_calls)
next
  assume ok: "fst (MTGraphicsPSO_ctor env device desc defaultRenderPass st) = None"
  show "m_stencilFrontRef (this (snd (MTGraphicsPSO_ctor env device desc defaultRenderPass st))) =
        reference (stencil_front (stencil desc))"
    and "m_stencilBackRef (this (snd (MTGraphicsPSO_ctor env device desc defaultRenderPass st))) =
        reference (stencil_back (stencil desc))"
    and "m_stencilRefDynamic (this (snd (MTGraphicsPSO_ctor env device desc defaultRenderPass st))) =
        referenceDynamic (stencil desc)"
    using ctor_snapshot [OF ok] by simp_all
qed

lemma Bind_stencil_reference_example:
  "\<not> LLGL_OS_IOS sample_env \<and>
   filter is_stencil_reference_call
     (Bind sample_env
        (this (snd (MTGraphicsPSO_ctor sample_env sample_device sample_desc None fresh_state)))
        []) = [setStencilReferenceValue 4] \<and>
   filter is_stencil_reference_call
     (Bind sample_env
        (this (snd (MTGraphicsPSO_ctor sample_env sample_device
           (sample_desc\<lparr>stencil := (stencil sample_desc)
              \<lparr>stencil_back := (stencil_back (stencil sample_desc))\<lparr>reference := 9\<rparr>\<rparr>\<rparr>)
           None fresh_state)))
        []) = [setStencilFrontReferenceValue_backReferenceValue 4 9] \<and>
   filter is_stencil_reference_call
     (Bind sample_env
        (this (snd (MTGraphicsPSO_ctor sample_env sample_device
           (sample_desc\<lparr>stencil := (stencil sample_desc)\<lparr>referenceDynamic := True\<rparr>\<rparr>)
           None fresh_state)))
        []) = []"
proof -
  let ?d2 = "sample_desc\<lparr>stencil := (stencil sample_desc)
              \<lparr>stencil_back := (stencil_back (stencil sample_desc))\<lparr>reference := 9\<rparr>\<rparr>\<rparr>"
  let ?d3 = "sample_desc\<lparr>stencil := (stencil sample_desc)\<lparr>referenceDynamic := True\<rparr>\<rparr>"
  let ?pso = "\<lambda>d. this (snd (MTGraphicsPSO_ctor sample_env sample_device d None fresh_state))"
  have vs: "vertexShader sample_desc = Some (sample_shader 0)"
    and rp: "renderPass sample_desc = Some sample_renderPass"
    and ios: "\<not> LLGL_OS_IOS sample_env"
    and refs: "reference (stencil_front (stencil sample_desc)) = 4"
      "reference (stencil_back (stencil sample_desc)) = 4"
      "\<not> referenceDynamic (stencil sample_desc)"
    by (simp_all add: sample_desc_def sample_env_def)
  have ok1: "fst (MTGraphicsPSO_ctor sample_env sample_device sample_desc None fresh_state) = None"
    and ok2: "fst (MTGraphicsPSO_ctor sample_env sample_device ?d2 None fresh_state) = None"
    and ok3: "fst (MTGraphicsPSO_ctor sample_env sample_device ?d3 None fresh_state) = None"
    by (rule ctor_sample_succeeds [where rp = sample_renderPass]; simp add: vs rp)+
  have a: "filter is_stencil_reference_call (Bind sample_env (?pso sample_desc) []) =
             [setStencilReferenceValue 4]"
    using Bind_stencil_reference [of sample_env "?pso sample_desc" "[]" sample_device
        sample_desc None fresh_state]
    by (simp add: ok1 ios refs)
  have b: "filter is_stencil_reference_call (Bind sample_env (?pso ?d2) []) =
             [setStencilFrontReferenceValue_backReferenceValue 4 9]"
    using Bind_stencil_reference [of sample_env "?pso ?d2" "[]" sample_device
        ?d2 None fresh_state]
    by (simp add: ok2 ios refs)
  have c: "filter is_stencil_reference_call (Bind sample_env (?pso ?d3) []) = []"
    using Bind_stencil_reference [of sample_env "?pso ?d3" "[]" sample_device
        ?d3 None fresh_state]
    by (simp add: ok3 ios refs)
  from ios a b c show ?thesis
    by blast
qed

text \<open>
  C8. For every constructed object whose stencil reference is not dynamic, \<^verbatim>\<open>Bind\<close> is
  to set the stencil reference, in the single-value or the paired form. Where
  \<^verbatim>\<open>LLGL_OS_IOS\<close> is defined the code does not: the lines that set the depth bias and the
  stencil reference are compiled out under
  \<^verbatim>\<open>#ifndef LLGL_OS_IOS //TODO: disabled for testing iOS\<close>. The constructor succeeds on the
  sample descriptor, the object it builds has a stencil reference that is not dynamic,
  and binding it puts no stencil reference call on the encoder.
\<close>
theorem C8_ios_bind_sets_no_stencil_reference:
  "LLGL_OS_IOS (sample_env\<lparr>LLGL_OS_IOS := True\<rparr>) \<and>
   fst (MTGraphicsPSO_ctor (sample_env\<lparr>LLGL_OS_IOS := True\<rparr>) sample_device sample_desc None
          fresh_state) = None \<and>
   \<not> m_stencilRefDynamic
       (this (snd (MTGraphicsPSO_ctor (sample_env\<lparr>LLGL_OS_IOS := True\<rparr>) sample_device
                     sample_desc None fresh_state))) \<and>
   filter is_stencil_reference_call
     (Bind (sample_env\<lparr>LLGL_OS_IOS := True\<rparr>)
        (this (snd (MTGraphicsPSO_ctor (sample_env\<lparr>LLGL_OS_IOS := True\<rparr>) sample_device
                      sample_desc None fresh_state)))
        []) = []"
proof -
  let ?ios = "sample_env\<lparr>LLGL_OS_IOS := True\<rparr>"
  have vs: "vertexShader sample_desc = Some (sample_shader 0)"
    and rp: "renderPass sample_desc = Some sample_renderPass"
    and dyn: "\<not> referenceDynamic (stencil sample_desc)"
    by (simp_all add: sample_desc_def)
  have ok: "fst (MTGraphicsPSO_ctor ?ios sample_device sample_desc None fresh_state) = None"
    by (rule ctor_sample_succeeds [OF vs rp])
  show ?thesis
    by (simp add: ok ctor_snapshot [OF ok] dyn Bind_calls)
qed


end
